theory Spec2Isabelle
  imports Complex_Main "HOL-Library.Word" "HOL-Library.List_Lexorder" "HOL-Library.AList"
    "HOL-Library.Signed_Division"
begin

unbundle bit_operations_syntax

chapter \<open>Definitions\<close>

section \<open>Bytes and byte order (encoding/binary)\<close>

text \<open>
  Go strings and byte slices are sequences of bytes. \<open>BigEndian.Uint64\<close> and
  \<open>BigEndian.Uint16\<close> read eight resp. two bytes, most significant first;
  \<open>BigEndian.PutUint16\<close> writes them. Every caller below passes a slice of exactly that
  many bytes.
\<close>

type_synonym byte = "8 word"

definition be_word :: "byte list \<Rightarrow> 'a::len word" where
  "be_word b = foldl (\<lambda>acc x. push_bit 8 acc OR ucast x) 0 b"

definition be_bytes :: "nat \<Rightarrow> 'a::len word \<Rightarrow> byte list" where
  "be_bytes n w = map (\<lambda>i. ucast (drop_bit (8 * i) w)) (rev [0..<n])"

definition Uint64 :: "byte list \<Rightarrow> 64 word" where
  "Uint64 b = be_word (take 8 b)"

definition Uint16 :: "byte list \<Rightarrow> 16 word" where
  "Uint16 b = be_word (take 2 b)"

definition PutUint16 :: "16 word \<Rightarrow> byte list" where
  "PutUint16 v = [ucast (drop_bit 8 v), ucast v]"

text \<open>
  Go's builtin \<open>copy(dst, src)\<close> overwrites the first \<open>min (len dst) (len src)\<close>
  elements of \<open>dst\<close>.
\<close>

definition copy :: "'a list \<Rightarrow> 'a list \<Rightarrow> 'a list" where
  "copy dst src = take (length dst) src @ drop (length src) dst"

text \<open>The number a byte string denotes when read most significant byte first.\<close>

fun be_nat :: "byte list \<Rightarrow> nat" where
  "be_nat [] = 0"
| "be_nat (x # xs) = unat x * 256 ^ length xs + be_nat xs"

section \<open>Addresses (net/netip)\<close>

text \<open>
  A \<open>netip.Addr\<close> is the zero value, an IPv4 address of 32 bits, or an IPv6 address of
  128 bits with an optional zone (the empty zone is no zone). \<open>Unmap\<close> turns an
  IPv4-mapped IPv6 address \<open>::ffff:a.b.c.d\<close> into the IPv4 address and drops its zone;
  \<open>AsSlice\<close> gives the 4 or 16 address bytes and never the zone; \<open>AddrFromSlice\<close>
  accepts exactly 4 or 16 bytes.
\<close>

datatype Addr = AddrZero | Addr4 "32 word" | Addr6 "128 word" string

fun IsValid :: "Addr \<Rightarrow> bool" where
  "IsValid AddrZero = False"
| "IsValid _ = True"

fun Is4In6 :: "Addr \<Rightarrow> bool" where
  "Is4In6 (Addr6 a z) = (drop_bit 32 a = 0xffff)"
| "Is4In6 _ = False"

fun Zone :: "Addr \<Rightarrow> string" where
  "Zone (Addr6 a z) = z"
| "Zone _ = []"

fun Unmap :: "Addr \<Rightarrow> Addr" where
  "Unmap (Addr6 a z) = (if drop_bit 32 a = 0xffff then Addr4 (ucast a) else Addr6 a z)"
| "Unmap ip = ip"

fun BitLen :: "Addr \<Rightarrow> nat" where
  "BitLen AddrZero = 0"
| "BitLen (Addr4 _) = 32"
| "BitLen (Addr6 _ _) = 128"

fun AsSlice :: "Addr \<Rightarrow> byte list" where
  "AsSlice AddrZero = []"
| "AsSlice (Addr4 a) = be_bytes 4 a"
| "AsSlice (Addr6 a z) = be_bytes 16 a"

definition AddrFromSlice :: "byte list \<Rightarrow> Addr \<times> bool" where
  "AddrFromSlice b =
     (if length b = 4 then (Addr4 (be_word b), True)
      else if length b = 16 then (Addr6 (be_word b) [], True)
      else (AddrZero, False))"

type_synonym AddrPort = "Addr \<times> 16 word"

definition AddrPortFrom :: "Addr \<Rightarrow> 16 word \<Rightarrow> AddrPort" where
  "AddrPortFrom ip port = (ip, port)"

section \<open>Wire types (package bittorrent)\<close>

text \<open>
  An \<open>InfoHash\<close> is a Go string of raw bytes, a \<open>PeerID\<close> is the array \<open>[20]byte\<close>:
  both are byte lists here, and the theorems that read a peer ID ask for its 20 bytes.
\<close>

type_synonym InfoHash = "byte list"
type_synonym PeerID = "byte list"

definition PeerIDLen :: nat where
  "PeerIDLen = 20"

definition InfoHashV1Len :: nat where
  "InfoHashV1Len = 20"

definition IPv4len :: nat where
  "IPv4len = 4"

definition PeerMinimumLen :: nat where
  "PeerMinimumLen = PeerIDLen + 2 + IPv4len"

datatype bittorrent_error = ErrInvalidPeerIDSize | ErrInvalidPeerDataSize | ErrInvalidIP

definition zeroPeerID :: PeerID where
  "zeroPeerID = replicate PeerIDLen 0"

definition NewPeerID :: "byte list \<Rightarrow> PeerID \<times> bittorrent_error option" where
  "NewPeerID b =
     (if length b \<noteq> PeerIDLen then (zeroPeerID, Some ErrInvalidPeerIDSize)
      else (b, None))"

record Peer =
  ID :: PeerID
  AddrPort :: AddrPort

definition zeroPeer :: Peer where
  "zeroPeer = \<lparr>ID = zeroPeerID, AddrPort = (AddrZero, 0)\<rparr>"

definition Addr :: "Peer \<Rightarrow> Addr" where
  "Addr p = Unmap (fst (AddrPort p))"

definition Port :: "Peer \<Rightarrow> 16 word" where
  "Port p = snd (AddrPort p)"

text \<open>
  \<open>NewPeer\<close> parses \<open>PeerID[20] Port[2] IP[4 or 16]\<close>; \<open>RawString\<close> writes it. Go returns
  the pair of the peer and the error; an error leaves the zero peer.
\<close>

definition NewPeer :: "byte list \<Rightarrow> Peer \<times> bittorrent_error option" where
  "NewPeer data =
     (if length data < PeerMinimumLen then (zeroPeer, Some ErrInvalidPeerDataSize)
      else
        (case NewPeerID (take PeerIDLen data) of
           (peerID, Some e) \<Rightarrow> (zeroPeer, Some e)
         | (peerID, None) \<Rightarrow>
             (case AddrFromSlice (drop (PeerIDLen + 2) data) of
                (addr, True) \<Rightarrow>
                  (\<lparr>ID = peerID,
                    AddrPort = AddrPortFrom (Unmap addr)
                      (Uint16 (take 2 (drop PeerIDLen data)))\<rparr>, None)
              | (addr, False) \<Rightarrow> (zeroPeer, Some ErrInvalidIP))))"

definition RawString :: "Peer \<Rightarrow> byte list" where
  "RawString p =
     (let ip = Addr p;
          b = replicate (PeerIDLen + 2 + BitLen ip div 8) (0::byte);
          b = copy (take PeerIDLen b) (ID p) @ drop PeerIDLen b;
          b = take PeerIDLen b @ PutUint16 (Port p) @ drop (PeerIDLen + 2) b;
          b = take (PeerIDLen + 2) b @ copy (drop (PeerIDLen + 2) b) (AsSlice ip)
      in b)"

text \<open>
  Fixtures: a peer at an IPv4 address, at an IPv6 address, and at a link-local IPv6
  address with a zone.
\<close>

definition demo_peer :: Peer where
  "demo_peer = \<lparr>ID = [0,0,0,0,0,0,0,0, 0,0,0,0,0,0,0,0, 0,0,0,0],
                AddrPort = (Addr4 0x0A000001, 6881)\<rparr>"

definition v6_peer :: Peer where
  "v6_peer = demo_peer\<lparr>AddrPort := (Addr6 0x20010db8000000000000ff0000428329 [], 51413)\<rparr>"

definition zoned_peer :: Peer where
  "zoned_peer = demo_peer\<lparr>AddrPort := (Addr6 0xfe800000000000000000000000000001 ''eth0'', 6881)\<rparr>"

text \<open>
  The parsed announce request and the announce response. \<open>Params\<close> (the raw query
  parameters, an interface) is left out, and the embedded peer is the \<open>Peer\<close> above.
  \<open>time.Duration\<close> is a signed 64-bit count of nanoseconds.
\<close>

record AnnounceRequest =
  Event :: "8 word"
  InfoHash :: InfoHash
  Compact :: bool
  EventProvided :: bool
  NumWantProvided :: bool
  IPProvided :: bool
  NumWant :: "32 word"
  Left :: "64 word"
  Downloaded :: "64 word"
  Uploaded :: "64 word"
  Peer :: Peer

type_synonym Duration = "64 word"

definition Second :: Duration where
  "Second = 1000000000"

record AnnounceResponse =
  resp_Compact :: bool
  Complete :: "32 word"
  Incomplete :: "32 word"
  Interval :: Duration
  MinInterval :: Duration
  IPv4Peers :: "Peer list"
  IPv6Peers :: "Peer list"

section \<open>Entropy of a request (middleware/pkg/random)\<close>

definition DeriveEntropyFromRequest :: "AnnounceRequest \<Rightarrow> 64 word \<times> 64 word" where
  "DeriveEntropyFromRequest req =
     (let v0 = (if length (InfoHash req) \<ge> InfoHashV1Len
                then Uint64 (take 8 (InfoHash req)) + Uint64 (take 8 (drop 8 (InfoHash req)))
                else 0);
          v1 = Uint64 (take 8 (ID (Peer req))) + Uint64 (take 8 (drop 8 (ID (Peer req))))
      in (v0, v1))"

text \<open>
  The seed as the specification words it: the first 16 bytes of the infohash XORed with
  the first 16 bytes of the peer ID, read as two 64-bit words.
\<close>

definition spec_seed :: "AnnounceRequest \<Rightarrow> 64 word \<times> 64 word" where
  "spec_seed req =
     (Uint64 (take 8 (InfoHash req)) XOR Uint64 (take 8 (ID (Peer req))),
      Uint64 (take 8 (drop 8 (InfoHash req))) XOR Uint64 (take 8 (drop 8 (ID (Peer req)))))"

section \<open>The varinterval hook (middleware/varinterval)\<close>

text \<open>
  \<open>ModifyResponseProbability\<close> is a \<open>float32\<close>. Every finite float is a rational and
  Go compares floats exactly, so the field is a rational here; \<open>float32(v) / (1 << 24)\<close>
  is exact for \<open>0 \<le> v < 2 ^ 24\<close>, the range of the generator's result.

  \<open>random.Intn(s0, s1, n)\<close> is not among the sources. The hook takes it as a parameter:
  a function from the two state words and the bound \<open>n\<close> to the drawn number and the
  next state, as the call in \<open>HandleAnnounce\<close> uses it. What the hook needs of it is a
  result \<open>k\<close> with \<open>0 \<le> k < n\<close> for \<open>n > 0\<close>: the specification's uniform integer in
  \<open>[1, MaxIncreaseDelta]\<close> is \<open>k + 1\<close>.
\<close>

type_synonym Intn = "64 word \<Rightarrow> 64 word \<Rightarrow> int \<Rightarrow> int \<times> 64 word \<times> 64 word"

definition Intn_contract :: "Intn \<Rightarrow> bool" where
  "Intn_contract intn = (\<forall>s0 s1 n. 0 < n \<longrightarrow> 0 \<le> fst (intn s0 s1 n) \<and> fst (intn s0 s1 n) < n)"

record varinterval_Config =
  ModifyResponseProbability :: rat
  MaxIncreaseDelta :: int
  ModifyMinInterval :: bool

datatype varinterval_error = ErrInvalidModifyResponseProbability | ErrInvalidMaxIncreaseDelta

definition checkConfig :: "varinterval_Config \<Rightarrow> varinterval_error option" where
  "checkConfig cfg =
     (if ModifyResponseProbability cfg \<le> 0 \<or> ModifyResponseProbability cfg > 1
      then Some ErrInvalidModifyResponseProbability
      else if MaxIncreaseDelta cfg \<le> 0 then Some ErrInvalidMaxIncreaseDelta
      else None)"

record hook =
  cfg :: varinterval_Config

definition NewHook :: "varinterval_Config \<Rightarrow> varinterval_error + hook" where
  "NewHook c = (case checkConfig c of Some err \<Rightarrow> Inl err | None \<Rightarrow> Inr \<lparr>cfg = c\<rparr>)"

text \<open>
  \<open>HandleAnnounce\<close> updates the response in place and returns the context unchanged
  with a nil error; the model returns the updated response and the error.
\<close>

definition HandleAnnounce ::
  "Intn \<Rightarrow> hook \<Rightarrow> AnnounceRequest \<Rightarrow> AnnounceResponse
     \<Rightarrow> AnnounceResponse \<times> varinterval_error option" where
  "HandleAnnounce intn h req resp =
     (case DeriveEntropyFromRequest req of (s0, s1) \<Rightarrow>
      (case intn s0 s1 (2 ^ 24) of (v, s0, s1) \<Rightarrow>
       (let p = (of_int v :: rat) / 2 ^ 24 in
        if ModifyResponseProbability (cfg h) = 1 \<or> p < ModifyResponseProbability (cfg h)
        then
          (case intn s0 s1 (MaxIncreaseDelta (cfg h)) of (v, _, _) \<Rightarrow>
           (let add = (word_of_int (v + 1) :: Duration) * Second;
                resp = resp\<lparr>Interval := Interval resp + add\<rparr>;
                resp = (if ModifyMinInterval (cfg h)
                        then resp\<lparr>MinInterval := MinInterval resp + add\<rparr> else resp)
            in (resp, None)))
        else (resp, None))))"

text \<open>
  The hook's decision to modify a response, and the number of seconds it then adds: the
  first and the second draw of \<open>HandleAnnounce\<close>, named so that claims can speak of them.
\<close>

definition modifies :: "Intn \<Rightarrow> hook \<Rightarrow> AnnounceRequest \<Rightarrow> bool" where
  "modifies intn h req =
     (case DeriveEntropyFromRequest req of (s0, s1) \<Rightarrow>
      (case intn s0 s1 (2 ^ 24) of (v, s0, s1) \<Rightarrow>
         ModifyResponseProbability (cfg h) = 1
         \<or> (of_int v :: rat) / 2 ^ 24 < ModifyResponseProbability (cfg h)))"

definition delta :: "Intn \<Rightarrow> hook \<Rightarrow> AnnounceRequest \<Rightarrow> int" where
  "delta intn h req =
     (case DeriveEntropyFromRequest req of (s0, s1) \<Rightarrow>
      (case intn s0 s1 (2 ^ 24) of (v, s0, s1) \<Rightarrow>
       (case intn s0 s1 (MaxIncreaseDelta (cfg h)) of (v, _, _) \<Rightarrow> v + 1)))"

text \<open>A generator that meets the contract, and fixtures for the examples.\<close>

definition demo_Intn :: Intn where
  "demo_Intn s0 s1 n = (uint (s0 + s1) mod n, s1, s0 + s1)"

definition demo_hook :: hook where
  "demo_hook = \<lparr>cfg = \<lparr>ModifyResponseProbability = 1 / 2, MaxIncreaseDelta = 5,
                         ModifyMinInterval = True\<rparr>\<rparr>"

text \<open>
  A generator that always draws the largest number, and a hook that modifies every
  response by up to ten thousand million seconds.
\<close>

definition max_Intn :: Intn where
  "max_Intn s0 s1 n = (n - 1, s1, s0 + s1)"

definition big_hook :: hook where
  "big_hook = \<lparr>cfg = \<lparr>ModifyResponseProbability = 1, MaxIncreaseDelta = 10000000000,
                        ModifyMinInterval = True\<rparr>\<rparr>"

definition demo_request :: AnnounceRequest where
  "demo_request =
     \<lparr>Event = 0,
      InfoHash = [0,0,0,0,0,0,0,1, 0,0,0,0,0,0,0,1, 0,0,0,0],
      Compact = True, EventProvided = False, NumWantProvided = False, IPProvided = False,
      NumWant = 50, Left = 100, Downloaded = 0, Uploaded = 0, Peer = demo_peer\<rparr>"

definition demo_request2 :: AnnounceRequest where
  "demo_request2 = demo_request\<lparr>Event := 2, Left := 0, NumWant := 10,
     Peer := demo_peer\<lparr>AddrPort := (Addr4 0x0A000002, 51413)\<rparr>\<rparr>"

definition demo_response :: AnnounceResponse where
  "demo_response =
     \<lparr>resp_Compact = True, Complete = 1, Incomplete = 2,
      Interval = 1800 * Second, MinInterval = 900 * Second,
      IPv4Peers = [], IPv6Peers = []\<rparr>"

section \<open>Bencoding (the encoder of anacrolix/torrent/bencode)\<close>

text \<open>
  The encoder writes an integer as \<open>i<decimal>e\<close>, a string as \<open><length>:<bytes>\<close>, a
  list as \<open>l...e\<close> and a map as \<open>d...e\<close> with the keys in ascending byte order, as
  bencoding requires. A Go map is an association list with distinct keys here; what
  the encoder emits does not depend on the order in which the map was filled.
\<close>

definition bytes_of :: "string \<Rightarrow> byte list" where
  "bytes_of s = map of_char s"

fun Itoa_nat :: "nat \<Rightarrow> byte list" where
  "Itoa_nat n =
     (if n < 10 then [48 + of_nat n] else Itoa_nat (n div 10) @ [48 + of_nat (n mod 10)])"

declare Itoa_nat.simps [simp del]

definition Itoa :: "int \<Rightarrow> byte list" where
  "Itoa i = (if i < 0 then bytes_of ''-'' @ Itoa_nat (nat (- i)) else Itoa_nat (nat i))"

datatype bvalue =
  BInt int | BStr "byte list" | BList "bvalue list" | BDict "(byte list \<times> bvalue) list"

fun bencode :: "bvalue \<Rightarrow> byte list" where
  "bencode (BInt i) = bytes_of ''i'' @ Itoa i @ bytes_of ''e''"
| "bencode (BStr s) = Itoa (int (length s)) @ bytes_of '':'' @ s"
| "bencode (BList vs) = bytes_of ''l'' @ concat (map bencode vs) @ bytes_of ''e''"
| "bencode (BDict kvs) =
     bytes_of ''d''
     @ concat (map (\<lambda>(k, v). bencode (BStr k) @ bencode v) (sort_key fst kvs))
     @ bytes_of ''e''"

section \<open>The HTTP frontend's writer (frontend/http)\<close>

text \<open>
  An \<open>http.ResponseWriter\<close> of net/http. The header, and with it the status code, is
  written once: \<open>WriteHeader\<close> after that is ignored, and a \<open>Write\<close> before any
  \<open>WriteHeader\<close> writes the header with status 200 first. \<open>Write\<close> appends to the
  body. \<open>WriteError\<close> is the only caller of \<open>WriteHeader\<close> here, with 200; the
  informational codes, which leave the header open, do not occur. Writing to the
  connection does not fail in the model, so \<open>Encode\<close> returns no error.
\<close>

record ResponseWriter =
  wroteHeader :: bool
  status :: nat
  body :: "byte list"

definition StatusOK :: nat where
  "StatusOK = 200"

definition WriteHeader :: "ResponseWriter \<Rightarrow> nat \<Rightarrow> ResponseWriter" where
  "WriteHeader w code = (if wroteHeader w then w else w\<lparr>wroteHeader := True, status := code\<rparr>)"

definition Write :: "ResponseWriter \<Rightarrow> byte list \<Rightarrow> ResponseWriter" where
  "Write w b =
     (let w = (if wroteHeader w then w else WriteHeader w StatusOK)
      in w\<lparr>body := body w @ b\<rparr>)"

definition Encode :: "ResponseWriter \<Rightarrow> bvalue \<Rightarrow> ResponseWriter" where
  "Encode w v = Write w (bencode v)"

text \<open>
  Go errors: a \<open>bittorrent.ClientError\<close> (a string), any other plain error, an error that
  wraps another one (\<open>fmt.Errorf\<close> with \<open>%w\<close>), or several joined errors.
  \<open>errors.As(err, &clientErr)\<close> searches the error and what it wraps, depth first, for
  the first \<open>ClientError\<close>; on a nil error it finds none.
\<close>

datatype error =
  ClientError string | ErrorString string | Wrapped string error | Joined "error list"

fun first_Some :: "'a option list \<Rightarrow> 'a option" where
  "first_Some [] = None"
| "first_Some (Some x # _) = Some x"
| "first_Some (None # xs) = first_Some xs"

fun As_ClientError :: "error \<Rightarrow> string option" where
  "As_ClientError (ClientError m) = Some m"
| "As_ClientError (ErrorString _) = None"
| "As_ClientError (Wrapped _ e) = As_ClientError e"
| "As_ClientError (Joined es) = first_Some (map As_ClientError es)"

definition WriteError :: "ResponseWriter \<Rightarrow> error option \<Rightarrow> ResponseWriter" where
  "WriteError w err =
     (let message = ''internal server error'';
          message = (case err of
                       None \<Rightarrow> message
                     | Some e \<Rightarrow> (case As_ClientError e of Some m \<Rightarrow> m | None \<Rightarrow> message));
          w = WriteHeader w StatusOK
      in Encode w (BDict [(bytes_of ''failure reason'', BStr (bytes_of message))]))"

text \<open>The body that carries a failure reason, written out byte by byte.\<close>

definition failure_body :: "string \<Rightarrow> byte list" where
  "failure_body m =
     bytes_of ''d14:failure reason'' @ Itoa (int (length m)) @ bytes_of '':'' @ bytes_of m
     @ bytes_of ''e''"

text \<open>
  The announce response. The values of the dictionary that \<open>WriteAnnounceResponse\<close>
  hands to the encoder are Go values of several types, among them a \<open>netip.Addr\<close>; the
  model gives that dictionary and the response, whose intervals the function divides in
  place. \<open>As4\<close> panics on the zero address and on an IPv6 address that is not
  IPv4-mapped: \<open>None\<close>. \<open>As16\<close> gives an IPv4 address in its IPv4-mapped form and the
  zero address as 16 zero bytes.
\<close>

datatype go_value =
  VUint32 "32 word" | VUint16 "16 word" | VDuration Duration | VBytes "byte list"
  | VString "byte list" | VAddr Addr | VDicts "(string \<times> go_value) list list"

fun As4 :: "Addr \<Rightarrow> byte list option" where
  "As4 (Addr4 a) = Some (be_bytes 4 a)"
| "As4 (Addr6 a z) =
     (if drop_bit 32 a = 0xffff then Some (be_bytes 4 (ucast a :: 32 word)) else None)"
| "As4 AddrZero = None"

fun As16 :: "Addr \<Rightarrow> byte list" where
  "As16 (Addr4 a) = be_bytes 16 (push_bit 32 (0xffff :: 128 word) OR ucast a)"
| "As16 (Addr6 a z) = be_bytes 16 a"
| "As16 AddrZero = replicate 16 0"

definition compact4 :: "Peer \<Rightarrow> byte list option" where
  "compact4 peer =
     (case As4 (Addr peer) of
        None \<Rightarrow> None
      | Some ip \<Rightarrow> Some (ip @ [ucast (drop_bit 8 (Port peer)), ucast (Port peer AND 0xff)]))"

definition compact6 :: "Peer \<Rightarrow> byte list" where
  "compact6 peer =
     As16 (Addr peer) @ [ucast (drop_bit 8 (Port peer)), ucast (Port peer AND 0xff)]"

definition dict :: "Peer \<Rightarrow> (string \<times> go_value) list" where
  "dict peer =
     [(''peer id'', VString (ID peer)), (''ip'', VAddr (Addr peer)),
      (''port'', VUint16 (Port peer))]"

fun append_all :: "('a \<Rightarrow> byte list option) \<Rightarrow> byte list \<Rightarrow> 'a list \<Rightarrow> byte list option" where
  "append_all f buf [] = Some buf"
| "append_all f buf (x # xs) =
     (case f x of None \<Rightarrow> None | Some b \<Rightarrow> append_all f (buf @ b) xs)"

definition div_Duration :: "Duration \<Rightarrow> Duration \<Rightarrow> Duration" where
  "div_Duration a b = word_of_int (sint a sdiv sint b)"

definition WriteAnnounceResponse ::
  "AnnounceResponse \<Rightarrow> (AnnounceResponse \<times> (string \<times> go_value) list) option" where
  "WriteAnnounceResponse resp =
     (let resp = (if 0 < sint (Interval resp)
                  then resp\<lparr>Interval := div_Duration (Interval resp) Second\<rparr> else resp);
          resp = (if 0 < sint (Interval resp)
                  then resp\<lparr>MinInterval := div_Duration (MinInterval resp) Second\<rparr>
                  else resp);
          bdict = [(''complete'', VUint32 (Complete resp)),
                   (''incomplete'', VUint32 (Incomplete resp)),
                   (''interval'', VDuration (Interval resp)),
                   (''min interval'', VDuration (MinInterval resp))]
      in if resp_Compact resp then
           (case append_all compact4 [] (IPv4Peers resp) of
              None \<Rightarrow> None
            | Some ipv4CompactDict \<Rightarrow>
                (let bdict = (if length ipv4CompactDict > 0
                              then AList.update ''peers'' (VBytes ipv4CompactDict) bdict
                              else bdict);
                     ipv6CompactDict = concat (map compact6 (IPv6Peers resp));
                     bdict = (if length ipv6CompactDict > 0
                              then AList.update ''peers6'' (VBytes ipv6CompactDict) bdict
                              else bdict)
                 in Some (resp, bdict)))
         else
           (let peers = map dict (IPv4Peers resp) @ map dict (IPv6Peers resp)
            in Some (resp, AList.update ''peers'' (VDicts peers) bdict)))"

text \<open>
  The scrape response. Its doc comment asks for the same order as the infohashes of the
  request. \<open>WriteScrapeResponse\<close> fills a Go map keyed by the raw infohash, one scrape
  after the other, and encodes it.
\<close>

record Scrape =
  scrape_InfoHash :: InfoHash
  Snatches :: "32 word"
  scrape_Complete :: "32 word"
  scrape_Incomplete :: "32 word"

record ScrapeResponse =
  Files :: "Scrape list"

definition scrape_entry :: "Scrape \<Rightarrow> bvalue" where
  "scrape_entry scrape =
     BDict [(bytes_of ''complete'', BInt (uint (scrape_Complete scrape))),
            (bytes_of ''incomplete'', BInt (uint (scrape_Incomplete scrape)))]"

definition filesDict :: "ScrapeResponse \<Rightarrow> (byte list \<times> bvalue) list" where
  "filesDict resp =
     foldl (\<lambda>m scrape. AList.update (scrape_InfoHash scrape) (scrape_entry scrape) m)
       [] (Files resp)"

definition WriteScrapeResponse :: "ResponseWriter \<Rightarrow> ScrapeResponse \<Rightarrow> ResponseWriter" where
  "WriteScrapeResponse w resp = Encode w (BDict [(bytes_of ''files'', BDict (filesDict resp))])"

text \<open>
  The body as the specification words it: one entry per scrape, in the order of the
  response's \<open>Files\<close>.
\<close>

definition spec_scrape_body :: "ScrapeResponse \<Rightarrow> byte list" where
  "spec_scrape_body resp =
     bytes_of ''d5:filesd''
     @ concat (map (\<lambda>scrape. bencode (BStr (scrape_InfoHash scrape))
                               @ bencode (scrape_entry scrape)) (Files resp))
     @ bytes_of ''ee''"

section \<open>The response hook's scrape (package middleware)\<close>

text \<open>
  \<open>TruncateV1\<close> cuts a 32-byte infohash to its first 20 bytes. \<open>responseHook.HandleScrape\<close>
  appends one scrape to the response for each infohash of the request, in the order of
  the request; for a 32-byte infohash it adds the counts of the truncated one. The
  store is behind the interface \<open>PeerStorage\<close>, of which the hook calls \<open>ScrapeSwarm\<close>:
  a function from the infohash to \<open>(leechers, seeders, snatched)\<close> here. A context that carries \<open>SkipResponseHookKey\<close>
  skips the hook. The context comes back unchanged and the error is nil; the model
  returns the response and the error.
\<close>

definition InfoHashV2Len :: nat where
  "InfoHashV2Len = 32"

definition TruncateV1 :: "InfoHash \<Rightarrow> InfoHash" where
  "TruncateV1 i = (if length i = InfoHashV2Len then take InfoHashV1Len i else i)"

record ScrapeRequest =
  InfoHashes :: "InfoHash list"

type_synonym PeerStorage = "InfoHash \<Rightarrow> 32 word \<times> 32 word \<times> 32 word"

definition scrape_of :: "PeerStorage \<Rightarrow> InfoHash \<Rightarrow> Scrape" where
  "scrape_of ScrapeSwarm infoHash =
     (let scr = \<lparr>scrape_InfoHash = infoHash, Snatches = 0, scrape_Complete = 0,
                  scrape_Incomplete = 0\<rparr>;
          scr = (case ScrapeSwarm infoHash of
                   (leechers, seeders, snatched) \<Rightarrow>
                     scr\<lparr>scrape_Incomplete := leechers, scrape_Complete := seeders,
                         Snatches := snatched\<rparr>)
      in if length infoHash = InfoHashV2Len
         then (case ScrapeSwarm (TruncateV1 infoHash) of
                 (leechers, seeders, snatched) \<Rightarrow>
                   scr\<lparr>scrape_Incomplete := scrape_Incomplete scr + leechers,
                       scrape_Complete := scrape_Complete scr + seeders,
                       Snatches := Snatches scr + snatched\<rparr>)
         else scr)"

definition HandleScrape ::
  "bool \<Rightarrow> PeerStorage \<Rightarrow> ScrapeRequest \<Rightarrow> ScrapeResponse \<Rightarrow> ScrapeResponse \<times> error option" where
  "HandleScrape skip ScrapeSwarm req resp =
     (if skip then (resp, None)
      else (foldl (\<lambda>resp infoHash. resp\<lparr>Files := Files resp @ [scrape_of ScrapeSwarm infoHash]\<rparr>)
              resp (InfoHashes req), None))"

text \<open>
  What a scrape request gets: the hook fills a new response, the frontend writes it.
\<close>

definition scrape_response :: "PeerStorage \<Rightarrow> ScrapeRequest \<Rightarrow> ScrapeResponse" where
  "scrape_response ScrapeSwarm req = fst (HandleScrape False ScrapeSwarm req \<lparr>Files = []\<rparr>)"

text \<open>Fixtures.\<close>

definition new_writer :: ResponseWriter where
  "new_writer = \<lparr>wroteHeader = False, status = 0, body = []\<rparr>"

definition failed_writer :: ResponseWriter where
  "failed_writer = \<lparr>wroteHeader = True, status = 500, body = []\<rparr>"

definition scrape_a :: Scrape where
  "scrape_a = \<lparr>scrape_InfoHash = [0x61,0x61,0x61,0x61,0x61,0x61,0x61,0x61,0x61,0x61,
                                   0x61,0x61,0x61,0x61,0x61,0x61,0x61,0x61,0x61,0x61], Snatches = 0, scrape_Complete = 1,
                scrape_Incomplete = 2\<rparr>"

definition scrape_b :: Scrape where
  "scrape_b = \<lparr>scrape_InfoHash = [0x62,0x62,0x62,0x62,0x62,0x62,0x62,0x62,0x62,0x62,
                                   0x62,0x62,0x62,0x62,0x62,0x62,0x62,0x62,0x62,0x62], Snatches = 0, scrape_Complete = 3,
                scrape_Incomplete = 4\<rparr>"

definition wrapped_client_error :: error where
  "wrapped_client_error = Wrapped ''announce'' (ClientError ''bad'')"

definition demo_ScrapeSwarm :: PeerStorage where
  "demo_ScrapeSwarm ih =
     (if ih = scrape_InfoHash scrape_a then (2, 1, 0)
      else if ih = scrape_InfoHash scrape_b then (4, 3, 0)
      else (0, 0, 0))"

definition request_ab :: ScrapeRequest where
  "request_ab = \<lparr>InfoHashes = [scrape_InfoHash scrape_a, scrape_InfoHash scrape_b]\<rparr>"

definition request_ba :: ScrapeRequest where
  "request_ba = \<lparr>InfoHashes = [scrape_InfoHash scrape_b, scrape_InfoHash scrape_a]\<rparr>"

text \<open>A response with an interval of half a second and a minimum interval of 900 seconds.\<close>

definition short_response :: AnnounceResponse where
  "short_response =
     \<lparr>resp_Compact = True, Complete = 1, Incomplete = 2,
      Interval = 500000000, MinInterval = 900 * Second, IPv4Peers = [], IPv6Peers = []\<rparr>"

section \<open>The PostgreSQL peer store (storage/pg)\<close>

subsection \<open>Configuration\<close>

text \<open>
  \<open>strings.TrimSpace\<close> and \<open>strings.ToUpper\<close> belong to Go's library. They work on
  UTF-8 text: \<open>TrimSpace\<close> removes Unicode white space at both ends, \<open>ToUpper\<close> maps
  every rune to its upper case. The store takes them as parameters here, under the
  names of the source. What is used of them is their effect on ASCII text, where the
  white space is tab, line feed, vertical tab, form feed, carriage return and space
  and the letters with an upper case are \<open>a\<close> to \<open>z\<close>: \<open>ascii_TrimSpace\<close> and
  \<open>ascii_ToUpper\<close> below. A string is a list of bytes, ASCII when no byte has its
  top bit set.
\<close>

definition ascii :: "string \<Rightarrow> bool" where
  "ascii s = list_all (\<lambda>c. \<not> digit7 c) s"

definition asciiSpace :: "char \<Rightarrow> bool" where
  "asciiSpace c = (c \<in> set [CHR 0x09, CHR 0x0A, CHR 0x0B, CHR 0x0C, CHR 0x0D, CHR '' ''])"

definition ascii_TrimSpace :: "string \<Rightarrow> string" where
  "ascii_TrimSpace s = rev (dropWhile asciiSpace (rev (dropWhile asciiSpace s)))"

definition ascii_upper :: "char \<Rightarrow> char" where
  "ascii_upper c =
     (case map_of (zip ''abcdefghijklmnopqrstuvwxyz'' ''ABCDEFGHIJKLMNOPQRSTUVWXYZ'') c of
        Some u \<Rightarrow> u
      | None \<Rightarrow> c)"

definition ascii_ToUpper :: "string \<Rightarrow> string" where
  "ascii_ToUpper s = map ascii_upper s"

text \<open>Two functions on strings agree on ASCII text.\<close>

definition agree_on_ascii :: "(string \<Rightarrow> string) \<Rightarrow> (string \<Rightarrow> string) \<Rightarrow> bool" where
  "agree_on_ascii f g = (\<forall>s. ascii s \<longrightarrow> f s = g s)"

record PeerConfig =
  Peer_AddQuery :: string
  Peer_DelQuery :: string
  GraduateQuery :: string
  CountQuery :: string
  CountSeedersColumn :: string
  CountLeechersColumn :: string
  ByInfoHashClause :: string

record AnnounceConfig =
  Query :: string
  PeerIDColumn :: string
  AddressColumn :: string
  PortColumn :: string

record DataConfig =
  Data_AddQuery :: string
  Data_GetQuery :: string
  Data_DelQuery :: string

record Config =
  ConnectionString :: string
  PingQuery :: string
  PeerCfg :: PeerConfig
  AnnounceCfg :: AnnounceConfig
  DataCfg :: DataConfig
  GCQuery :: string
  InfoHashCountQuery :: string

datatype pg_error =
  errConnectionStringNotProvided
  | errRequiredParameterNotSet string
  | errRequiredColumnsNotFound "string list"
  | ErrResourceDoesNotExist
  | QueryError string
  | ScanError string
  | PeerError bittorrent_error

definition defaultPingQuery :: string where
  "defaultPingQuery = ''SELECT 0''"

text \<open>
  The closure \<open>fn\<close> of \<open>Validate\<close>: it trims the field it points to and reports an empty
  one. The model returns the trimmed field with the error.
\<close>

definition fn :: "(string \<Rightarrow> string) \<Rightarrow> string \<Rightarrow> string \<Rightarrow> string \<times> pg_error option" where
  "fn TrimSpace p name =
     (let p = TrimSpace p
      in (p, if length p = 0 then Some (errRequiredParameterNotSet name) else None))"

text \<open>
  \<open>Validate\<close> applies \<open>fn\<close> to fourteen fields, one after the other, and returns the
  configuration it was given (\<open>config\<close>, the receiver \<open>cfg\<close> of the source) with the
  error of the first empty one. The model keeps
  the fields in a table, in the order of the source: how to read the field, how to
  store it, and its name.
\<close>

type_synonym required =
  "(Config \<Rightarrow> string) \<times> (Config \<Rightarrow> string \<Rightarrow> Config) \<times> string"

definition required_parameters :: "required list" where
  "required_parameters =
    [(\<lambda>c. Peer_AddQuery (PeerCfg c), \<lambda>c p. c\<lparr>PeerCfg := (PeerCfg c)\<lparr>Peer_AddQuery := p\<rparr>\<rparr>,
      ''Peer.AddQuery''),
     (\<lambda>c. Peer_DelQuery (PeerCfg c), \<lambda>c p. c\<lparr>PeerCfg := (PeerCfg c)\<lparr>Peer_DelQuery := p\<rparr>\<rparr>,
      ''Peer.DelQuery''),
     (\<lambda>c. GraduateQuery (PeerCfg c), \<lambda>c p. c\<lparr>PeerCfg := (PeerCfg c)\<lparr>GraduateQuery := p\<rparr>\<rparr>,
      ''Peer.GraduateQuery''),
     (\<lambda>c. CountQuery (PeerCfg c), \<lambda>c p. c\<lparr>PeerCfg := (PeerCfg c)\<lparr>CountQuery := p\<rparr>\<rparr>,
      ''Peer.CountQuery''),
     (\<lambda>c. CountSeedersColumn (PeerCfg c), \<lambda>c p. c\<lparr>PeerCfg := (PeerCfg c)\<lparr>CountSeedersColumn := p\<rparr>\<rparr>,
      ''Peer.CountSeedersColumn''),
     (\<lambda>c. CountLeechersColumn (PeerCfg c), \<lambda>c p. c\<lparr>PeerCfg := (PeerCfg c)\<lparr>CountLeechersColumn := p\<rparr>\<rparr>,
      ''Peer.CountLeechersColumn''),
     (\<lambda>c. ByInfoHashClause (PeerCfg c), \<lambda>c p. c\<lparr>PeerCfg := (PeerCfg c)\<lparr>ByInfoHashClause := p\<rparr>\<rparr>,
      ''Peer.ByInfoHashClause''),
     (\<lambda>c. Query (AnnounceCfg c), \<lambda>c p. c\<lparr>AnnounceCfg := (AnnounceCfg c)\<lparr>Query := p\<rparr>\<rparr>,
      ''Announce.Query''),
     (\<lambda>c. PeerIDColumn (AnnounceCfg c), \<lambda>c p. c\<lparr>AnnounceCfg := (AnnounceCfg c)\<lparr>PeerIDColumn := p\<rparr>\<rparr>,
      ''Announce.PeerIDColumn''),
     (\<lambda>c. AddressColumn (AnnounceCfg c), \<lambda>c p. c\<lparr>AnnounceCfg := (AnnounceCfg c)\<lparr>AddressColumn := p\<rparr>\<rparr>,
      ''Announce.AddressColumn''),
     (\<lambda>c. PortColumn (AnnounceCfg c), \<lambda>c p. c\<lparr>AnnounceCfg := (AnnounceCfg c)\<lparr>PortColumn := p\<rparr>\<rparr>,
      ''Announce.PortColumn''),
     (\<lambda>c. Data_AddQuery (DataCfg c), \<lambda>c p. c\<lparr>DataCfg := (DataCfg c)\<lparr>Data_AddQuery := p\<rparr>\<rparr>,
      ''Data.AddQuery''),
     (\<lambda>c. Data_GetQuery (DataCfg c), \<lambda>c p. c\<lparr>DataCfg := (DataCfg c)\<lparr>Data_GetQuery := p\<rparr>\<rparr>,
      ''Data.GetQuery''),
     (\<lambda>c. Data_DelQuery (DataCfg c), \<lambda>c p. c\<lparr>DataCfg := (DataCfg c)\<lparr>Data_DelQuery := p\<rparr>\<rparr>,
      ''Data.DelQuery'')]"

fun trim_required ::
  "(string \<Rightarrow> string) \<Rightarrow> required list \<Rightarrow> Config \<Rightarrow> Config \<times> pg_error option" where
  "trim_required TrimSpace [] validCfg = (validCfg, None)"
| "trim_required TrimSpace ((read, store, name) # rest) validCfg =
     (case fn TrimSpace (read validCfg) name of
        (p, Some err) \<Rightarrow> (store validCfg p, Some err)
      | (p, None) \<Rightarrow> trim_required TrimSpace rest (store validCfg p))"

definition Validate ::
  "(string \<Rightarrow> string) \<Rightarrow> (string \<Rightarrow> string) \<Rightarrow> Config \<Rightarrow> Config \<times> pg_error option" where
  "Validate TrimSpace ToUpper config =
    (let validCfg = config\<lparr>ConnectionString := TrimSpace (ConnectionString config)\<rparr> in
     if length (ConnectionString validCfg) = 0 then (config, Some errConnectionStringNotProvided)
     else
       (let validCfg = (if length (PingQuery config) = 0
                        then validCfg\<lparr>PingQuery := defaultPingQuery\<rparr> else validCfg)
        in case trim_required TrimSpace required_parameters validCfg of
             (validCfg, Some err) \<Rightarrow> (config, Some err)
           | (validCfg, None) \<Rightarrow>
              (let validCfg = validCfg\<lparr>AnnounceCfg := (AnnounceCfg validCfg)
                     \<lparr>PeerIDColumn := ToUpper (PeerIDColumn (AnnounceCfg validCfg))\<rparr>\<rparr>;
                   validCfg = validCfg\<lparr>AnnounceCfg := (AnnounceCfg validCfg)
                     \<lparr>PeerIDColumn := ToUpper (AddressColumn (AnnounceCfg validCfg))\<rparr>\<rparr>;
                   validCfg = validCfg\<lparr>AnnounceCfg := (AnnounceCfg validCfg)
                     \<lparr>PeerIDColumn := ToUpper (PortColumn (AnnounceCfg validCfg))\<rparr>\<rparr>;
                   validCfg = validCfg\<lparr>PeerCfg := (PeerCfg validCfg)
                     \<lparr>CountSeedersColumn := ToUpper (CountSeedersColumn (PeerCfg validCfg))\<rparr>\<rparr>;
                   validCfg = validCfg\<lparr>PeerCfg := (PeerCfg validCfg)
                     \<lparr>CountLeechersColumn := ToUpper (CountLeechersColumn (PeerCfg validCfg))\<rparr>\<rparr>
               in (validCfg, None))))"

text \<open>A complete configuration with lower-case column names.\<close>

definition demo_Config :: Config where
  "demo_Config =
     \<lparr>ConnectionString = ''postgres://localhost/mochi'',
      PingQuery = [],
      PeerCfg = \<lparr>Peer_AddQuery = ''CALL add_peer($1,$2,$3,$4,$5,$6)'',
                 Peer_DelQuery = ''CALL del_peer($1,$2,$3,$4,$5)'',
                 GraduateQuery = ''CALL graduate($1,$2,$3,$4)'',
                 CountQuery = ''SELECT * FROM counts'',
                 CountSeedersColumn = ''seeders'',
                 CountLeechersColumn = ''leechers'',
                 ByInfoHashClause = ''WHERE ih = $1''\<rparr>,
      AnnounceCfg = \<lparr>Query = ''SELECT * FROM announce($1,$2,$3,$4)'',
                     PeerIDColumn = ''peer_id'',
                     AddressColumn = ''address'',
                     PortColumn = ''port''\<rparr>,
      DataCfg = \<lparr>Data_AddQuery = ''CALL add_data($1,$2,$3)'',
                 Data_GetQuery = ''SELECT get_data($1,$2)'',
                 Data_DelQuery = ''CALL del_data($1,$2)''\<rparr>,
      GCQuery = [],
      InfoHashCountQuery = []\<rparr>"

subsection \<open>The connection pool (pgx) as the store uses it\<close>

text \<open>
  The store talks to the database through \<open>Query\<close> only: a statement and its arguments
  give an error or a result set, that is the names of the columns and the rows, each
  row a list of column values. What a statement selects is the configuration's and the
  database's business, so the pool is a function here.

  \<open>Rows.Scan\<close> wants as many destinations as there are columns, skips a nil destination
  and converts the other columns from left to right: a byte string or address into a
  \<open>[]byte\<close> or \<open>net.IP\<close> (NULL gives nil), an integer into an \<open>int\<close>. It stops at the
  first column that does not convert, keeps what it stored before, and closes the rows:
  the next \<open>Rows.Next\<close> is false.
\<close>

datatype arg = ArgBytes "byte list" | ArgBool bool | ArgInt int

datatype cell = CellBytes "byte list" | CellInt int | CellNull

record Rows =
  FieldDescriptions :: "string list"
  rows :: "cell list list"

type_synonym Pool = "string \<Rightarrow> arg list \<Rightarrow> pg_error + Rows"

record store =
  Config :: Config
  Pool :: Pool

definition NoneInfoHash :: InfoHash where
  "NoneInfoHash = []"

datatype dest = DestBytes | DestIP | DestInt

datatype scanned = GotBytes "byte list" | GotInt int

fun scan_cell :: "dest \<Rightarrow> cell \<Rightarrow> scanned option" where
  "scan_cell DestInt (CellInt n) = Some (GotInt n)"
| "scan_cell DestInt _ = None"
| "scan_cell _ (CellBytes b) = Some (GotBytes b)"
| "scan_cell _ CellNull = Some (GotBytes [])"
| "scan_cell _ (CellInt n) = None"

text \<open>
  \<open>scan_from i into row\<close> converts the columns from index \<open>i\<close> on; the result holds, for
  each index it stored, the value, and the error if it stopped.
\<close>

fun scan_from ::
  "nat \<Rightarrow> dest option list \<Rightarrow> cell list \<Rightarrow> (nat \<rightharpoonup> scanned) \<times> pg_error option" where
  "scan_from i [] cs = (Map.empty, None)"
| "scan_from i (d # ds) [] = (Map.empty, Some (ScanError ''missing column''))"
| "scan_from i (None # ds) (c # cs) = scan_from (Suc i) ds cs"
| "scan_from i (Some d # ds) (c # cs) =
     (case scan_cell d c of
        None \<Rightarrow> (Map.empty, Some (ScanError ''cannot convert column''))
      | Some v \<Rightarrow> (case scan_from (Suc i) ds cs of (m, err) \<Rightarrow> (m(i \<mapsto> v), err)))"

definition Scan ::
  "string list \<Rightarrow> cell list \<Rightarrow> dest option list \<Rightarrow> (nat \<rightharpoonup> scanned) \<times> pg_error option" where
  "Scan names row into =
     (if length names \<noteq> length into \<or> length names \<noteq> length row
      then (Map.empty, Some (ScanError ''number of destinations''))
      else scan_from 0 into row)"

text \<open>
  \<open>builder\<close> validates the configuration it is given, connects, and makes the store of
  the validated configuration and the pool. The connection is the library's: the model
  takes the pool it gives, or its error.
\<close>

definition builder ::
  "(string \<Rightarrow> string) \<Rightarrow> (string \<Rightarrow> string) \<Rightarrow> Config \<Rightarrow> pg_error + Pool \<Rightarrow> pg_error + store" where
  "builder TrimSpace ToUpper config con =
     (case Validate TrimSpace ToUpper config of
        (config, Some err) \<Rightarrow> Inl err
      | (config, None) \<Rightarrow>
          (case con of
             Inl err \<Rightarrow> Inl err
           | Inr pool \<Rightarrow> Inr \<lparr>Config = config, Pool = pool\<rparr>))"

subsection \<open>Counting and scraping\<close>

text \<open>
  The statement \<open>countPeers\<close> sends: the count query alone for \<open>NoneInfoHash\<close>, with the
  infohash clause and the infohash otherwise.
\<close>

definition count_result :: "store \<Rightarrow> InfoHash \<Rightarrow> pg_error + Rows" where
  "count_result s ih =
     (if ih = NoneInfoHash then Pool s (CountQuery (PeerCfg (Config s))) []
      else Pool s (CountQuery (PeerCfg (Config s)) @ '' '' @ ByInfoHashClause (PeerCfg (Config s)))
             [ArgBytes ih])"

text \<open>
  The loop over the field descriptions with its \<open>switch\<close>: the first matching case
  takes the field, a later field of the same name replaces an earlier one.
\<close>

fun count_columns ::
  "(string \<Rightarrow> string) \<Rightarrow> string \<Rightarrow> string \<Rightarrow> string list \<Rightarrow> int \<Rightarrow> int \<times> int \<Rightarrow> int \<times> int" where
  "count_columns ToUpper sc lc [] i (si, li) = (si, li)"
| "count_columns ToUpper sc lc (field # rest) i (si, li) =
     (let name = ToUpper field
      in count_columns ToUpper sc lc rest (i + 1)
           (if name = sc then (i, li) else if name = lc then (si, i) else (si, li)))"

definition got_int :: "(nat \<rightharpoonup> scanned) \<Rightarrow> int \<Rightarrow> int" where
  "got_int m i = (case m (nat i) of Some (GotInt n) \<Rightarrow> n | _ \<Rightarrow> 0)"

definition got_bytes :: "(nat \<rightharpoonup> scanned) \<Rightarrow> int \<Rightarrow> byte list" where
  "got_bytes m i = (case m (nat i) of Some (GotBytes b) \<Rightarrow> b | _ \<Rightarrow> [])"

text \<open>\<open>countPeers\<close> returns the pair \<open>(leechers, seeders)\<close>; an error is logged only.\<close>

definition countPeers :: "(string \<Rightarrow> string) \<Rightarrow> store \<Rightarrow> InfoHash \<Rightarrow> int \<times> int" where
  "countPeers ToUpper s ih =
     (case count_result s ih of
        Inl err \<Rightarrow> (0, 0)
      | Inr rs \<Rightarrow>
          (case rows rs of
             [] \<Rightarrow> (0, 0)
           | row # _ \<Rightarrow>
               (case count_columns ToUpper (CountSeedersColumn (PeerCfg (Config s)))
                       (CountLeechersColumn (PeerCfg (Config s)))
                       (FieldDescriptions rs) 0 (- 1, - 1) of
                  (si, li) \<Rightarrow>
                    if si < 0 \<or> li < 0 then (0, 0)
                    else
                      (let mi = (if si > li then si else li);
                           into = replicate (nat (mi + 1)) None;
                           into = into[nat si := Some DestInt];
                           into = into[nat li := Some DestInt];
                           (m, err) = Scan (FieldDescriptions rs) row into;
                           seeders = got_int m si;
                           leechers = got_int m li
                       in (leechers, seeders)))))"

text \<open>
  \<open>ScrapeSwarm\<close> returns \<open>(leechers, seeders, snatched)\<close>. It reads the pair of
  \<open>countPeers\<close> into \<open>sc, lc\<close>, in this order.
\<close>

definition ScrapeSwarm ::
  "(string \<Rightarrow> string) \<Rightarrow> store \<Rightarrow> InfoHash \<Rightarrow> 32 word \<times> 32 word \<times> 32 word" where
  "ScrapeSwarm ToUpper s ih =
     (case countPeers ToUpper s ih of
        (sc, lc) \<Rightarrow>
          (let seeders = (word_of_int sc :: 32 word);
               leechers = (word_of_int lc :: 32 word);
               snatched = (0 :: 32 word)
           in (leechers, seeders, snatched)))"

text \<open>
  An infohash is absent from the store when the count statement for it gives no row, or
  a first row whose count columns hold no number but 0. The store is unavailable when
  the statement fails.
\<close>

definition zero_cell :: "cell \<Rightarrow> bool" where
  "zero_cell c = (case c of CellInt n \<Rightarrow> n = 0 | _ \<Rightarrow> True)"

definition absent :: "(string \<Rightarrow> string) \<Rightarrow> store \<Rightarrow> InfoHash \<Rightarrow> bool" where
  "absent ToUpper s ih =
     (case count_result s ih of
        Inl err \<Rightarrow> False
      | Inr rs \<Rightarrow>
          (case rows rs of
             [] \<Rightarrow> True
           | row # _ \<Rightarrow>
               list_all (\<lambda>(field, c).
                   if ToUpper field = CountSeedersColumn (PeerCfg (Config s))
                      \<or> ToUpper field = CountLeechersColumn (PeerCfg (Config s))
                   then zero_cell c else True)
                 (zip (FieldDescriptions rs) row)))"

definition unavailable :: "store \<Rightarrow> InfoHash \<Rightarrow> bool" where
  "unavailable s ih = (case count_result s ih of Inl err \<Rightarrow> True | Inr rs \<Rightarrow> False)"

subsection \<open>Announcing peers\<close>

fun peer_columns ::
  "(string \<Rightarrow> string) \<Rightarrow> string \<Rightarrow> string \<Rightarrow> string \<Rightarrow> string list \<Rightarrow> int \<Rightarrow> int \<times> int \<times> int
     \<Rightarrow> int \<times> int \<times> int" where
  "peer_columns ToUpper idc ipc pc [] i (idIndex, ipIndex, portIndex)
     = (idIndex, ipIndex, portIndex)"
| "peer_columns ToUpper idc ipc pc (field # rest) i (idIndex, ipIndex, portIndex) =
     (let name = ToUpper field
      in peer_columns ToUpper idc ipc pc rest (i + 1)
           (if name = idc then (i, ipIndex, portIndex)
            else if name = ipc then (idIndex, i, portIndex)
            else if name = pc then (idIndex, ipIndex, i)
            else (idIndex, ipIndex, portIndex)))"

text \<open>
  The loop \<open>for rows.Next() && len(peers) < maxCount\<close>: it ends when the rows are
  used up, when the peers reach \<open>maxCount\<close>, or after a \<open>Scan\<close> that failed; \<open>err\<close> is
  the error of the last row it looked at.
\<close>

fun scan_peers ::
  "string list \<Rightarrow> dest option list \<Rightarrow> int \<times> int \<times> int \<Rightarrow> int \<Rightarrow> cell list list
     \<Rightarrow> Peer list \<Rightarrow> pg_error option \<Rightarrow> Peer list \<times> pg_error option" where
  "scan_peers names into ix maxCount [] peers err = (peers, err)"
| "scan_peers names into (idIndex, ipIndex, portIndex) maxCount (row # rest) peers err =
     (if \<not> int (length peers) < maxCount then (peers, err)
      else
        (case Scan names row into of
           (m, Some e) \<Rightarrow> (peers, Some e)
         | (m, None) \<Rightarrow>
             (let id = got_bytes m idIndex; ip = got_bytes m ipIndex;
                  port = got_int m portIndex
              in case NewPeerID id of
                   (peerID, Some e) \<Rightarrow>
                     scan_peers names into (idIndex, ipIndex, portIndex) maxCount rest peers
                       (Some (PeerError e))
                 | (peerID, None) \<Rightarrow>
                     (case AddrFromSlice ip of
                        (netAddr, True) \<Rightarrow>
                          scan_peers names into (idIndex, ipIndex, portIndex) maxCount rest
                            (peers @ [\<lparr>ID = peerID,
                                       AddrPort = AddrPortFrom netAddr (word_of_int port)\<rparr>])
                            None
                      | (netAddr, False) \<Rightarrow>
                          scan_peers names into (idIndex, ipIndex, portIndex) maxCount rest
                            peers (Some (PeerError ErrInvalidIP))))))"

definition getPeers ::
  "(string \<Rightarrow> string) \<Rightarrow> store \<Rightarrow> InfoHash \<Rightarrow> bool \<Rightarrow> int \<Rightarrow> bool
     \<Rightarrow> Peer list \<times> pg_error option" where
  "getPeers ToUpper s ih seeders maxCount isV6 =
     (case Pool s (Query (AnnounceCfg (Config s)))
             [ArgBytes ih, ArgBool isV6, ArgBool seeders, ArgInt maxCount] of
        Inl err \<Rightarrow> ([], Some err)
      | Inr rs \<Rightarrow>
          (case peer_columns ToUpper (PeerIDColumn (AnnounceCfg (Config s)))
                  (AddressColumn (AnnounceCfg (Config s)))
                  (PortColumn (AnnounceCfg (Config s)))
                  (FieldDescriptions rs) 0 (- 1, - 1, - 1) of
             (idIndex, ipIndex, portIndex) \<Rightarrow>
               if idIndex < 0 \<or> ipIndex < 0 \<or> portIndex < 0
               then ([], Some (errRequiredColumnsNotFound
                                 [PeerIDColumn (AnnounceCfg (Config s)),
                                  AddressColumn (AnnounceCfg (Config s)),
                                  PortColumn (AnnounceCfg (Config s))]))
               else
                 (let maxIndex =
                        (if idIndex \<ge> ipIndex \<and> idIndex \<ge> portIndex then idIndex
                         else if ipIndex \<ge> idIndex \<and> ipIndex \<ge> portIndex then ipIndex
                         else if portIndex \<ge> idIndex \<and> portIndex \<ge> ipIndex then portIndex
                         else 0);
                      into = replicate (nat (maxIndex + 1)) None;
                      into = into[nat idIndex := Some DestBytes];
                      into = into[nat ipIndex := Some DestIP];
                      into = into[nat portIndex := Some DestInt]
                  in scan_peers (FieldDescriptions rs) into (idIndex, ipIndex, portIndex)
                       maxCount (rows rs) [] None)))"

definition AnnouncePeers ::
  "(string \<Rightarrow> string) \<Rightarrow> store \<Rightarrow> InfoHash \<Rightarrow> bool \<Rightarrow> int \<Rightarrow> bool
     \<Rightarrow> Peer list \<times> pg_error option" where
  "AnnouncePeers ToUpper s ih forSeeder numWant v6 =
     (case (if forSeeder then getPeers ToUpper s ih False numWant v6
            else
              (case getPeers ToUpper s ih True numWant v6 of
                 (peers, Some err) \<Rightarrow> (peers, Some err)
               | (peers, None) \<Rightarrow>
                   (case getPeers ToUpper s ih False (numWant - int (length peers)) v6 of
                      (addPeers, err) \<Rightarrow> (peers @ addPeers, err)))) of
        (peers, err) \<Rightarrow>
          (let l = length peers
           in if err = None then (if l = 0 then (peers, Some ErrResourceDoesNotExist)
                                  else (peers, err))
              else if l > 0 then (peers, None)
              else (peers, err)))"

text \<open>
  Fixtures: a database with one swarm of one seeder and one leecher and one swarm of
  a single leecher, all at IPv4 addresses, and the store that \<open>builder\<close> makes of the
  complete configuration above over it.
\<close>

definition demo_ih :: InfoHash where
  "demo_ih = [1,2,3,4,5,6,7,8,9,10, 11,12,13,14,15,16,17,18,19,20]"

definition seeder_peer :: Peer where
  "seeder_peer = \<lparr>ID = [1,1,1,1,1,1,1,1,1,1, 1,1,1,1,1,1,1,1,1,1],
                  AddrPort = (Addr4 0x0A000001, 6881)\<rparr>"

definition leecher_peer :: Peer where
  "leecher_peer = \<lparr>ID = [2,2,2,2,2,2,2,2,2,2, 2,2,2,2,2,2,2,2,2,2],
                   AddrPort = (Addr4 0x0A000002, 6882)\<rparr>"

definition peer_row :: "Peer \<Rightarrow> cell list" where
  "peer_row p = [CellBytes (ID p), CellBytes (AsSlice (Addr p)), CellInt (uint (Port p))]"

definition lone_ih :: InfoHash where
  "lone_ih = [7,7,7,7,7,7,7,7,7,7, 7,7,7,7,7,7,7,7,7,7]"

definition demo_Pool :: Pool where
  "demo_Pool sql args =
     (if sql = ''SELECT * FROM announce($1,$2,$3,$4)'' then
        (case args of
           [ArgBytes ih, ArgBool isV6, ArgBool seeders, ArgInt maxCount] \<Rightarrow>
             Inr \<lparr>FieldDescriptions = [''peer_id'', ''address'', ''port''],
                  rows = take (nat maxCount)
                    (if ih = demo_ih \<and> \<not> isV6
                     then [peer_row (if seeders then seeder_peer else leecher_peer)]
                     else if ih = lone_ih \<and> \<not> isV6 \<and> \<not> seeders
                     then [peer_row leecher_peer]
                     else [])\<rparr>
         | _ \<Rightarrow> Inl (QueryError ''arguments''))
      else if sql = ''SELECT * FROM counts WHERE ih = $1'' then
        (case args of
           [ArgBytes ih] \<Rightarrow>
             Inr \<lparr>FieldDescriptions = [''seeders'', ''leechers''],
                  rows = [if ih = demo_ih then [CellInt 1, CellInt 1]
                          else if ih = lone_ih then [CellInt 0, CellInt 1]
                          else [CellInt 0, CellInt 0]]\<rparr>
         | _ \<Rightarrow> Inl (QueryError ''arguments''))
      else Inl (QueryError ''statement''))"

definition demo_store :: "(string \<Rightarrow> string) \<Rightarrow> (string \<Rightarrow> string) \<Rightarrow> store" where
  "demo_store TrimSpace ToUpper =
     \<lparr>Config = fst (Validate TrimSpace ToUpper demo_Config), Pool = demo_Pool\<rparr>"

definition other_ih :: InfoHash where
  "other_ih = [9,9,9,9,9,9,9,9,9,9, 9,9,9,9,9,9,9,9,9,9]"

chapter \<open>Theorems\<close>

section \<open>Byte order\<close>

lemma push_bit_8_or_ucast:
  "push_bit 8 (w::'a::len word) OR ucast (x::byte) = push_bit 8 w + ucast x"
proof -
  have "push_bit 8 w AND (ucast x :: 'a word) = 0"
    by (rule bit_eqI) (auto simp: bit_simps dest: bit_imp_le_length)
  then show ?thesis by (simp add: disjunctive_add_eq_or)
qed

lemma unat_byte_less: "unat (x::byte) < 256"
  using unsigned_less[of x, where ?'a=nat] by simp

lemma unat_be_step:
  "unat (push_bit 8 (w::64 word) OR ucast (x::byte)) = (unat w * 256 + unat x) mod 2 ^ 64"
proof -
  have "unat (ucast x :: 64 word) = unat x"
    using unat_byte_less[of x] by (simp add: unsigned_ucast_eq take_bit_nat_eq_self_iff)
  then show ?thesis
    unfolding push_bit_8_or_ucast by (simp add: unat_word_ariths push_bit_eq_mult mod_simps)
qed

lemma unat_be_foldl:
  "unat (foldl (\<lambda>acc x. push_bit 8 acc OR ucast x) (w::64 word) (bs::byte list))
     = (unat w * 256 ^ length bs + be_nat bs) mod 2 ^ 64"
proof (induction bs arbitrary: w)
  case Nil
  have "unat w < 2 ^ 64" using unsigned_less[of w, where ?'a=nat] by simp
  then show ?case by simp
next
  case (Cons b bs)
  have "unat (foldl (\<lambda>acc x. push_bit 8 acc OR ucast x) w (b # bs))
          = (((unat w * 256 + unat b) mod 2 ^ 64) * 256 ^ length bs + be_nat bs) mod 2 ^ 64"
    by (simp add: Cons.IH unat_be_step)
  also have "\<dots> = ((unat w * 256 + unat b) * 256 ^ length bs + be_nat bs) mod 2 ^ 64"
    by (metis mod_add_left_eq mod_mult_left_eq)
  finally show ?case by (simp add: algebra_simps)
qed

lemma be_nat_bound: "be_nat bs < 256 ^ length bs"
proof (induction bs)
  case Nil
  show ?case by simp
next
  case (Cons b bs)
  define K :: nat where "K = 256 ^ length bs"
  have "unat b * K \<le> 255 * K"
    using unat_byte_less[of b] by (intro mult_le_mono1) simp
  moreover have "be_nat bs < K" using Cons by (simp add: K_def)
  ultimately have "unat b * K + be_nat bs < 256 * K" by arith
  then show ?case by (simp add: K_def)
qed

lemma unat_Uint64: "length bs = 8 \<Longrightarrow> unat (Uint64 bs) = be_nat bs"
  using be_nat_bound[of bs] by (simp add: Uint64_def be_word_def unat_be_foldl)

lemma be_bytes_Suc: "be_bytes (Suc n) w = ucast (drop_bit (8 * n) w) # be_bytes n w"
  by (simp add: be_bytes_def)

lemma length_be_bytes: "length (be_bytes n w) = n"
  by (simp add: be_bytes_def)

lemma be_step_bits:
  "push_bit (8 * n) (push_bit 8 acc OR ucast (ucast (drop_bit (8 * n) w) :: byte)) OR take_bit (8 * n) w
     = push_bit (8 * Suc n) acc OR take_bit (8 * Suc n) (w::'a::len word)"
  by (rule bit_eqI) (auto simp: bit_simps add.commute)

lemma foldl_be_bytes:
  "foldl (\<lambda>acc x. push_bit 8 acc OR ucast x) acc (be_bytes n (w::'a::len word))
     = push_bit (8 * n) acc OR take_bit (8 * n) w"
proof (induction n arbitrary: acc)
  case 0
  show ?case by (simp add: be_bytes_def)
next
  case (Suc n)
  show ?case unfolding be_bytes_Suc foldl_Cons Suc.IH by (rule be_step_bits)
qed

lemma be_word_be_bytes:
  "LENGTH('a::len) \<le> 8 * n \<Longrightarrow> be_word (be_bytes n (w::'a word)) = w"
  by (simp add: be_word_def foldl_be_bytes take_bit_word_eq_self)

lemma Uint16_PutUint16: "Uint16 (PutUint16 v) = v"
proof -
  have "PutUint16 v = be_bytes 2 v" by (simp add: PutUint16_def be_bytes_def numeral_2_eq_2)
  then show ?thesis by (simp add: Uint16_def length_be_bytes be_word_be_bytes)
qed

section \<open>Peers and their serialized form\<close>

lemma length_PutUint16: "length (PutUint16 v) = 2"
  by (simp add: PutUint16_def)

lemma length_AsSlice: "length (AsSlice ip) = BitLen ip div 8"
  by (cases ip) (simp_all add: length_be_bytes)

lemma RawString_concat:
  assumes "length (ID p) = PeerIDLen"
  shows "RawString p = ID p @ PutUint16 (Port p) @ AsSlice (Addr p)"
  using assms
  by (simp add: RawString_def Let_def copy_def length_PutUint16 length_AsSlice PeerIDLen_def)

lemma AddrFromSlice_AsSlice:
  "IsValid ip \<Longrightarrow> AddrFromSlice (AsSlice ip) = (case ip of Addr6 a z \<Rightarrow> Addr6 a [] | _ \<Rightarrow> ip, True)"
  by (cases ip) (simp_all add: AddrFromSlice_def length_be_bytes be_word_be_bytes)

lemma Unmap_idem: "Unmap (Unmap ip) = Unmap ip"
  by (cases ip) auto

text \<open>
  Claim C9, as amended. For every peer (with its 20-byte ID) whose address is a valid
  unmapped IPv4 address, or a valid unmapped IPv6 address without a zone, parsing the
  serialized form gives the peer back: \<open>NewPeer (RawString p)\<close> succeeds and returns
  \<open>p\<close>, with the same peer ID, address and port.
\<close>

theorem NewPeer_RawString:
  assumes "length (ID p) = PeerIDLen"
    and "IsValid (fst (AddrPort p))"
    and "\<not> Is4In6 (fst (AddrPort p))"
    and "Zone (fst (AddrPort p)) = []"
  shows "NewPeer (RawString p) = (p, None)"
proof -
  obtain ip port where ap: "AddrPort p = (ip, port)" by (cases "AddrPort p")
  from assms ap have u: "Unmap ip = ip" and v: "IsValid ip" and z: "Zone ip = []"
    by (cases ip; simp)+
  have a: "Addr p = ip" and po: "Port p = port" by (simp_all add: Addr_def Port_def ap u)
  have afs: "AddrFromSlice (AsSlice ip) = (ip, True)"
    using v z AddrFromSlice_AsSlice[of ip] by (cases ip) simp_all
  have len: "PeerMinimumLen \<le> length (RawString p)"
    using assms(1) v
    by (cases ip) (simp_all add: RawString_concat a length_PutUint16 length_be_bytes
        PeerMinimumLen_def PeerIDLen_def IPv4len_def)
  have "NewPeer (RawString p) = (\<lparr>ID = ID p, AddrPort = (ip, port)\<rparr>, None)"
    using assms(1) len
    by (simp add: NewPeer_def RawString_concat a po NewPeerID_def afs u AddrPortFrom_def
        length_PutUint16 Uint16_PutUint16 PeerIDLen_def)
  also have "\<lparr>ID = ID p, AddrPort = (ip, port)\<rparr> = p" using ap by simp
  finally show ?thesis .
qed

theorem NewPeer_RawString_witness:
  "length (ID demo_peer) = PeerIDLen \<and> IsValid (fst (AddrPort demo_peer))
   \<and> \<not> Is4In6 (fst (AddrPort demo_peer)) \<and> Zone (fst (AddrPort demo_peer)) = []
   \<and> NewPeer (RawString demo_peer) = (demo_peer, None)
   \<and> IsValid (fst (AddrPort v6_peer)) \<and> \<not> Is4In6 (fst (AddrPort v6_peer))
   \<and> Zone (fst (AddrPort v6_peer)) = []
   \<and> NewPeer (RawString v6_peer) = (v6_peer, None)"
  using NewPeer_RawString[of demo_peer] NewPeer_RawString[of v6_peer]
  by (simp add: demo_peer_def v6_peer_def PeerIDLen_def)

text \<open>
  Claim C9 as stated fails for an IPv6 address with a zone: \<open>fe80::1%eth0\<close> is valid
  and unmapped, its serialized form holds the 16 address bytes only, and \<open>NewPeer\<close>
  returns the peer at \<open>fe80::1\<close> without the zone.
\<close>

theorem NewPeer_RawString_drops_zone:
  "length (ID zoned_peer) = PeerIDLen \<and> IsValid (fst (AddrPort zoned_peer))
   \<and> \<not> Is4In6 (fst (AddrPort zoned_peer))
   \<and> NewPeer (RawString zoned_peer)
       = (zoned_peer\<lparr>AddrPort := (Addr6 0xfe800000000000000000000000000001 [], 6881)\<rparr>, None)
   \<and> NewPeer (RawString zoned_peer) \<noteq> (zoned_peer, None)"
proof -
  have r: "RawString zoned_peer = ID zoned_peer @ PutUint16 6881 @ be_bytes 16 (0xfe800000000000000000000000000001 :: 128 word)"
    by (simp add: RawString_concat zoned_peer_def demo_peer_def PeerIDLen_def Port_def Addr_def)
  have "NewPeer (RawString zoned_peer)
       = (zoned_peer\<lparr>AddrPort := (Addr6 0xfe800000000000000000000000000001 [], 6881)\<rparr>, None)"
    unfolding r
    by (simp add: NewPeer_def NewPeerID_def AddrFromSlice_def length_be_bytes be_word_be_bytes
        length_PutUint16 Uint16_PutUint16 PeerMinimumLen_def PeerIDLen_def IPv4len_def
        AddrPortFrom_def zoned_peer_def demo_peer_def)
  then show ?thesis by (simp add: zoned_peer_def demo_peer_def PeerIDLen_def)
qed

section \<open>The seed of the varinterval hook\<close>

text \<open>
  Claim C7, as amended. For every announce request (with a peer ID of 20 bytes) the seed
  consists of two 64-bit words obtained by addition modulo \<open>2 ^ 64\<close>, not by XOR, and
  without mixing the two identifiers: the first word is the sum of the big-endian words
  \<open>InfoHash[0:8]\<close> and \<open>InfoHash[8:16]\<close> (and zero when the infohash has fewer than 20
  bytes), the second word is the sum of \<open>PeerID[0:8]\<close> and \<open>PeerID[8:16]\<close>.
\<close>

theorem DeriveEntropyFromRequest_sums:
  assumes "length (ID (Peer req)) = PeerIDLen"
  shows "unat (fst (DeriveEntropyFromRequest req))
           = (if InfoHashV1Len \<le> length (InfoHash req)
              then (be_nat (take 8 (InfoHash req))
                      + be_nat (take 8 (drop 8 (InfoHash req)))) mod 2 ^ 64
              else 0)
       \<and> unat (snd (DeriveEntropyFromRequest req))
           = (be_nat (take 8 (ID (Peer req)))
                + be_nat (take 8 (drop 8 (ID (Peer req))))) mod 2 ^ 64"
  using assms
  by (simp add: DeriveEntropyFromRequest_def Let_def unat_word_ariths unat_Uint64
      PeerIDLen_def InfoHashV1Len_def)

theorem DeriveEntropyFromRequest_sums_witness:
  "length (ID (Peer demo_request)) = PeerIDLen
   \<and> DeriveEntropyFromRequest demo_request = (2, 0)
   \<and> unat (fst (DeriveEntropyFromRequest demo_request)) = 2"
  using DeriveEntropyFromRequest_sums[of demo_request]
  by (simp add: demo_request_def demo_peer_def PeerIDLen_def InfoHashV1Len_def
      DeriveEntropyFromRequest_def Uint64_def be_word_def)

text \<open>
  Claim C7 as stated fails: for an infohash whose bytes 7 and 15 are 1 and a peer ID of
  zeros the code derives \<open>(2, 0)\<close>, the XOR of the first 16 bytes is \<open>(1, 1)\<close>.
\<close>

theorem seed_is_not_xor:
  "DeriveEntropyFromRequest demo_request = (2, 0) \<and> spec_seed demo_request = (1, 1)
   \<and> DeriveEntropyFromRequest demo_request \<noteq> spec_seed demo_request"
  by (simp add: demo_request_def demo_peer_def InfoHashV1Len_def
      DeriveEntropyFromRequest_def spec_seed_def Uint64_def be_word_def)

section \<open>The varinterval hook\<close>

lemma HandleAnnounce_modifies:
  "modifies intn h req \<Longrightarrow>
   HandleAnnounce intn h req resp =
     (resp\<lparr>Interval := Interval resp + word_of_int (delta intn h req) * Second,
           MinInterval := (if ModifyMinInterval (cfg h)
                           then MinInterval resp + word_of_int (delta intn h req) * Second
                           else MinInterval resp)\<rparr>, None)"
  by (auto simp: modifies_def HandleAnnounce_def delta_def Let_def split: prod.splits)

lemma HandleAnnounce_unmodified:
  "\<not> modifies intn h req \<Longrightarrow> HandleAnnounce intn h req resp = (resp, None)"
  by (auto simp: modifies_def HandleAnnounce_def Let_def split: prod.splits)

lemma delta_range:
  assumes "NewHook c = Inr h" and "Intn_contract intn"
  shows "1 \<le> delta intn h req \<and> delta intn h req \<le> MaxIncreaseDelta (cfg h)"
proof -
  from assms(1) have pos: "0 < MaxIncreaseDelta (cfg h)"
    by (auto simp: NewHook_def checkConfig_def split: option.splits if_splits)
  obtain s0 s1 where e: "DeriveEntropyFromRequest req = (s0, s1)" by (cases "DeriveEntropyFromRequest req")
  obtain v t0 t1 where d1: "intn s0 s1 (2 ^ 24) = (v, t0, t1)" by (cases "intn s0 s1 (2 ^ 24)")
  obtain v' u0 u1 where d2: "intn t0 t1 (MaxIncreaseDelta (cfg h)) = (v', u0, u1)"
    by (cases "intn t0 t1 (MaxIncreaseDelta (cfg h))")
  from assms(2) pos have "0 \<le> fst (intn t0 t1 (MaxIncreaseDelta (cfg h)))
      \<and> fst (intn t0 t1 (MaxIncreaseDelta (cfg h))) < MaxIncreaseDelta (cfg h)"
    unfolding Intn_contract_def by blast
  with d2 have "0 \<le> v' \<and> v' < MaxIncreaseDelta (cfg h)" by simp
  with e d1 d2 show ?thesis by (simp add: delta_def)
qed

lemma sint_add_seconds_wraps:
  fixes i :: Duration
  shows "sint (i + word_of_int d * Second) = signed_take_bit 63 (sint i + d * 1000000000)"
proof -
  have "i + word_of_int d * Second = word_of_int (sint i + d * 1000000000)"
    by (simp add: Second_def)
  then show ?thesis
    by (simp add: sint_sbintrunc' del: of_int_add of_int_mult)
qed

lemma sint_add_seconds:
  fixes i :: Duration
  assumes "0 \<le> d" and "sint i + d * 1000000000 < 2 ^ 63"
  shows "sint (i + word_of_int d * Second) = sint i + d * 1000000000"
proof -
  have "- (2 ^ 63) \<le> sint i" using sint_ge[of i] by simp
  with assms show ?thesis
    by (simp add: sint_add_seconds_wraps signed_take_bit_int_eq_self)
qed

lemma demo_Intn_contract: "Intn_contract demo_Intn"
  by (simp add: Intn_contract_def demo_Intn_def)

lemma max_Intn_contract: "Intn_contract max_Intn"
  by (simp add: Intn_contract_def max_Intn_def)

text \<open>
  Claim C6, as amended. For a hook built by \<open>NewHook\<close> and a generator that keeps its
  contract: when the hook decides to modify an announce, it adds \<open>d\<close> seconds to
  \<open>Interval\<close> for some \<open>d\<close> with \<open>1 \<le> d \<le> MaxIncreaseDelta\<close>, in the wrapping arithmetic
  of Go's 64-bit nanoseconds: \<open>Interval\<close> grows by exactly \<open>d\<close> seconds whenever the sum
  stays below \<open>2 ^ 63\<close> nanoseconds, and is the sum wrapped into the 64 bits in any
  case. \<open>MinInterval\<close> gets the same \<open>d\<close> seconds in the same way exactly when
  \<open>ModifyMinInterval\<close> is set, and nothing else changes; when the hook decides not to
  modify, the response is unchanged.
\<close>

theorem varinterval_adds_delta:
  assumes "NewHook c = Inr h" and "Intn_contract intn"
  shows "if modifies intn h req
         then \<exists>d. 1 \<le> d \<and> d \<le> MaxIncreaseDelta (cfg h)
                \<and> HandleAnnounce intn h req resp =
                    (resp\<lparr>Interval := Interval resp + word_of_int d * Second,
                          MinInterval := (if ModifyMinInterval (cfg h)
                                          then MinInterval resp + word_of_int d * Second
                                          else MinInterval resp)\<rparr>, None)
                \<and> sint (Interval (fst (HandleAnnounce intn h req resp)))
                    = signed_take_bit 63 (sint (Interval resp) + d * 1000000000)
                \<and> (sint (Interval resp) + d * 1000000000 < 2 ^ 63 \<longrightarrow>
                     sint (Interval (fst (HandleAnnounce intn h req resp)))
                       = sint (Interval resp) + d * 1000000000)
                \<and> (ModifyMinInterval (cfg h) \<longrightarrow>
                     sint (MinInterval (fst (HandleAnnounce intn h req resp)))
                       = signed_take_bit 63 (sint (MinInterval resp) + d * 1000000000))
                \<and> (ModifyMinInterval (cfg h)
                     \<and> sint (MinInterval resp) + d * 1000000000 < 2 ^ 63 \<longrightarrow>
                     sint (MinInterval (fst (HandleAnnounce intn h req resp)))
                       = sint (MinInterval resp) + d * 1000000000)
                \<and> (\<not> ModifyMinInterval (cfg h) \<longrightarrow>
                     MinInterval (fst (HandleAnnounce intn h req resp)) = MinInterval resp)
         else HandleAnnounce intn h req resp = (resp, None)"
proof (cases "modifies intn h req")
  case True
  let ?d = "delta intn h req"
  let ?r = "fst (HandleAnnounce intn h req resp)"
  from delta_range[OF assms] have r: "1 \<le> ?d \<and> ?d \<le> MaxIncreaseDelta (cfg h)" .
  have eq: "HandleAnnounce intn h req resp =
     (resp\<lparr>Interval := Interval resp + word_of_int ?d * Second,
           MinInterval := (if ModifyMinInterval (cfg h)
                           then MinInterval resp + word_of_int ?d * Second
                           else MinInterval resp)\<rparr>, None)"
    by (rule HandleAnnounce_modifies[OF True])
  have i: "Interval ?r = Interval resp + word_of_int ?d * Second"
    by (simp add: eq)
  have m: "ModifyMinInterval (cfg h) \<Longrightarrow>
             MinInterval ?r = MinInterval resp + word_of_int ?d * Second"
    and n: "\<not> ModifyMinInterval (cfg h) \<Longrightarrow> MinInterval ?r = MinInterval resp"
    by (simp_all add: eq)
  have 1: "sint (Interval ?r) = signed_take_bit 63 (sint (Interval resp) + ?d * 1000000000)"
    unfolding i by (rule sint_add_seconds_wraps)
  have 2: "sint (Interval resp) + ?d * 1000000000 < 2 ^ 63 \<longrightarrow>
          sint (Interval ?r) = sint (Interval resp) + ?d * 1000000000"
    unfolding i using r by (simp add: sint_add_seconds)
  have 3: "ModifyMinInterval (cfg h) \<longrightarrow>
          sint (MinInterval ?r) = signed_take_bit 63 (sint (MinInterval resp) + ?d * 1000000000)"
    using m by (simp add: sint_add_seconds_wraps)
  have 4: "ModifyMinInterval (cfg h) \<and> sint (MinInterval resp) + ?d * 1000000000 < 2 ^ 63 \<longrightarrow>
          sint (MinInterval ?r) = sint (MinInterval resp) + ?d * 1000000000"
    using m r by (simp add: sint_add_seconds)
  have 5: "\<not> ModifyMinInterval (cfg h) \<longrightarrow> MinInterval ?r = MinInterval resp"
    using n by simp
  have "\<exists>d. 1 \<le> d \<and> d \<le> MaxIncreaseDelta (cfg h)
                \<and> HandleAnnounce intn h req resp =
                    (resp\<lparr>Interval := Interval resp + word_of_int d * Second,
                          MinInterval := (if ModifyMinInterval (cfg h)
                                          then MinInterval resp + word_of_int d * Second
                                          else MinInterval resp)\<rparr>, None)
                \<and> sint (Interval ?r)
                    = signed_take_bit 63 (sint (Interval resp) + d * 1000000000)
                \<and> (sint (Interval resp) + d * 1000000000 < 2 ^ 63 \<longrightarrow>
                     sint (Interval ?r) = sint (Interval resp) + d * 1000000000)
                \<and> (ModifyMinInterval (cfg h) \<longrightarrow>
                     sint (MinInterval ?r)
                       = signed_take_bit 63 (sint (MinInterval resp) + d * 1000000000))
                \<and> (ModifyMinInterval (cfg h)
                     \<and> sint (MinInterval resp) + d * 1000000000 < 2 ^ 63 \<longrightarrow>
                     sint (MinInterval ?r) = sint (MinInterval resp) + d * 1000000000)
                \<and> (\<not> ModifyMinInterval (cfg h) \<longrightarrow> MinInterval ?r = MinInterval resp)"
    using r eq 1 2 3 4 5 by (intro exI[of _ ?d] conjI) blast+
  with True show ?thesis by (simp only: if_True)
next
  case False
  then show ?thesis by (simp add: HandleAnnounce_unmodified)
qed

theorem varinterval_adds_delta_witness:
  "NewHook (cfg demo_hook) = Inr demo_hook \<and> Intn_contract demo_Intn
   \<and> modifies demo_Intn demo_hook demo_request
   \<and> HandleAnnounce demo_Intn demo_hook demo_request demo_response =
       (demo_response\<lparr>Interval := 1803 * Second, MinInterval := 903 * Second\<rparr>, None)
   \<and> sint (Interval demo_response) = 1800000000000
   \<and> sint (Interval (fst (HandleAnnounce demo_Intn demo_hook demo_request demo_response)))
       = 1803000000000
   \<and> sint (MinInterval demo_response) = 900000000000
   \<and> sint (MinInterval (fst (HandleAnnounce demo_Intn demo_hook demo_request demo_response)))
       = 903000000000"
  using varinterval_adds_delta[of "cfg demo_hook" demo_hook demo_Intn demo_request demo_response]
    demo_Intn_contract
  by (simp add: demo_hook_def NewHook_def checkConfig_def modifies_def HandleAnnounce_def
      DeriveEntropyFromRequest_def demo_request_def demo_peer_def demo_Intn_def
      demo_response_def Second_def Uint64_def be_word_def InfoHashV1Len_def Let_def)

text \<open>
  Claim C6 as stated fails: \<open>NewHook\<close> accepts a \<open>MaxIncreaseDelta\<close> of ten thousand
  million seconds, the generator may draw the largest number, and the hook then adds
  \<open>10 ^ 19\<close> nanoseconds, more than 64 bits hold: an \<open>Interval\<close> of 1800 seconds and a
  \<open>MinInterval\<close> of 900 seconds become negative instead of growing by \<open>d\<close> seconds.
\<close>

theorem varinterval_wraps_around:
  "NewHook (cfg big_hook) = Inr big_hook \<and> Intn_contract max_Intn
   \<and> modifies max_Intn big_hook demo_request
   \<and> delta max_Intn big_hook demo_request = 10000000000
   \<and> sint (Interval demo_response) = 1800000000000
   \<and> sint (Interval (fst (HandleAnnounce max_Intn big_hook demo_request demo_response)))
       = - 8446742273709551616
   \<and> sint (MinInterval demo_response) = 900000000000
   \<and> sint (MinInterval (fst (HandleAnnounce max_Intn big_hook demo_request demo_response)))
       = - 8446743173709551616
   \<and> sint (Interval (fst (HandleAnnounce max_Intn big_hook demo_request demo_response)))
       < sint (Interval demo_response)"
  using max_Intn_contract
  by (simp add: big_hook_def NewHook_def checkConfig_def modifies_def delta_def
      HandleAnnounce_def DeriveEntropyFromRequest_def demo_request_def demo_peer_def
      max_Intn_def demo_response_def Second_def Uint64_def be_word_def InfoHashV1Len_def
      Let_def)

text \<open>
  Claim C8. Two announce requests with the same infohash and the same peer ID, handled
  by the same hook (the same configuration and generator), get the same decision and
  the same added seconds, whatever else differs in the requests and whatever the
  responses held before. The hook keeps no state between calls, so this holds across
  process runs.
\<close>

theorem varinterval_deterministic:
  assumes "InfoHash r1 = InfoHash r2" and "ID (Peer r1) = ID (Peer r2)"
  shows "modifies intn h r1 = modifies intn h r2
       \<and> delta intn h r1 = delta intn h r2
       \<and> HandleAnnounce intn h r1 resp = HandleAnnounce intn h r2 resp
       \<and> Interval (fst (HandleAnnounce intn h r1 resp1)) - Interval resp1
           = Interval (fst (HandleAnnounce intn h r2 resp2)) - Interval resp2
       \<and> MinInterval (fst (HandleAnnounce intn h r1 resp1)) - MinInterval resp1
           = MinInterval (fst (HandleAnnounce intn h r2 resp2)) - MinInterval resp2"
proof -
  have e: "DeriveEntropyFromRequest r1 = DeriveEntropyFromRequest r2"
    using assms by (simp add: DeriveEntropyFromRequest_def)
  then have m: "modifies intn h r1 = modifies intn h r2"
    and d: "delta intn h r1 = delta intn h r2"
    by (simp_all add: modifies_def delta_def)
  have h: "HandleAnnounce intn h r1 resp = HandleAnnounce intn h r2 resp" for resp
    using e by (simp add: HandleAnnounce_def)
  have i: "Interval (fst (HandleAnnounce intn h r resp)) - Interval resp
             = (if modifies intn h r then word_of_int (delta intn h r) * Second else 0)"
    and mi: "MinInterval (fst (HandleAnnounce intn h r resp)) - MinInterval resp
             = (if modifies intn h r \<and> ModifyMinInterval (cfg h)
                then word_of_int (delta intn h r) * Second else 0)" for r resp
    by (cases "modifies intn h r";
        simp add: HandleAnnounce_modifies HandleAnnounce_unmodified)+
  show ?thesis using m d h by (simp add: i mi)
qed

theorem varinterval_deterministic_witness:
  "InfoHash demo_request = InfoHash demo_request2
   \<and> ID (Peer demo_request) = ID (Peer demo_request2)
   \<and> demo_request \<noteq> demo_request2
   \<and> HandleAnnounce demo_Intn demo_hook demo_request demo_response
       = HandleAnnounce demo_Intn demo_hook demo_request2 demo_response"
  using varinterval_deterministic[of demo_request demo_request2 demo_Intn demo_hook
      demo_response demo_response demo_response]
  by (simp add: demo_request_def demo_request2_def demo_peer_def)

section \<open>The HTTP frontend's writer\<close>

lemma length_bytes_of: "length (bytes_of s) = length s"
  by (simp add: bytes_of_def)

lemma bencode_single_entry:
  "bencode (BDict [(k, v)]) = bytes_of ''d'' @ bencode (BStr k) @ bencode v @ bytes_of ''e''"
  by simp

lemma Itoa_14: "Itoa 14 = bytes_of ''14''"
  by (simp add: Itoa_def Itoa_nat.simps bytes_of_def)

lemma Encode_failure_reason:
  "bencode (BDict [(bytes_of ''failure reason'', BStr (bytes_of m))]) = failure_body m"
  by (simp add: failure_body_def length_bytes_of Itoa_14) (simp add: bytes_of_def)

lemma body_Write: "body (Write w b) = body w @ b"
  by (simp add: Write_def WriteHeader_def Let_def)

lemma WriteError_writes:
  "WriteError w err =
     (Write (WriteHeader w StatusOK)
        (failure_body (case err of
                         None \<Rightarrow> ''internal server error''
                       | Some e \<Rightarrow> (case As_ClientError e of
                                     Some m \<Rightarrow> m
                                   | None \<Rightarrow> ''internal server error''))))"
  unfolding WriteError_def Let_def Encode_def Encode_failure_reason by simp

text \<open>
  Claim C3. Whatever error \<open>WriteError\<close> is given, on a response whose header has not
  been written the status code it writes is 200 (once a header is written, its status
  stays: net/http ignores the later \<open>WriteHeader\<close>); the body it appends is the bencoded
  dictionary \<open>d14:failure reason<n>:<message>e\<close>, where the message is the
  \<open>ClientError\<close>'s own when the error is or wraps a \<open>ClientError\<close>, and
  \<open>internal server error\<close> for every other error (also for a nil one).
\<close>

theorem WriteError_status_and_body:
  "(\<not> wroteHeader w \<longrightarrow> status (WriteError w err) = 200)
   \<and> (wroteHeader w \<longrightarrow> status (WriteError w err) = status w)
   \<and> (\<forall>e m. err = Some e \<and> As_ClientError e = Some m \<longrightarrow>
         body (WriteError w err) = body w @ failure_body m)
   \<and> (err = None \<or> (\<exists>e. err = Some e \<and> As_ClientError e = None) \<longrightarrow>
         body (WriteError w err) = body w @ failure_body ''internal server error'')"
  unfolding WriteError_writes
  by (auto simp: Write_def WriteHeader_def StatusOK_def Let_def)

theorem WriteError_status_and_body_witness:
  "\<not> wroteHeader new_writer
   \<and> As_ClientError wrapped_client_error = Some ''bad''
   \<and> status (WriteError new_writer (Some wrapped_client_error)) = 200
   \<and> body (WriteError new_writer (Some wrapped_client_error))
       = bytes_of ''d14:failure reason3:bade''
   \<and> body (WriteError new_writer (Some (ErrorString ''connection refused'')))
       = bytes_of ''d14:failure reason21:internal server errore''
   \<and> wroteHeader failed_writer
   \<and> status (WriteError failed_writer (Some wrapped_client_error)) = 500"
  using WriteError_status_and_body[of new_writer "Some wrapped_client_error"]
    WriteError_status_and_body[of new_writer "Some (ErrorString ''connection refused'')"]
    WriteError_status_and_body[of failed_writer "Some wrapped_client_error"]
  by (simp add: wrapped_client_error_def new_writer_def failed_writer_def failure_body_def
      Itoa_def Itoa_nat.simps bytes_of_def)

text \<open>
  Claim C4 breaks on the code. The second guard of \<open>WriteAnnounceResponse\<close> tests
  \<open>Interval\<close> again where it means \<open>MinInterval\<close>: an interval below one second is 0
  after its division, and the minimum interval is then not divided. For an interval of
  half a second and a minimum interval of 900 seconds the entry \<open>min interval\<close> is
  900000000000, the nanoseconds, where the whole seconds are 900.
\<close>

theorem WriteAnnounceResponse_min_interval_in_nanoseconds:
  "WriteAnnounceResponse short_response =
     Some (short_response\<lparr>Interval := 0\<rparr>,
           [(''complete'', VUint32 1), (''incomplete'', VUint32 2),
            (''interval'', VDuration 0), (''min interval'', VDuration 900000000000)])
   \<and> div_Duration (Interval short_response) Second = 0
   \<and> div_Duration (MinInterval short_response) Second = 900"
  by (simp add: WriteAnnounceResponse_def short_response_def Second_def div_Duration_def
      signed_divide_int_def)

section \<open>The serialized scrape response\<close>

lemma filesDict_snoc:
  "filesDict \<lparr>Files = fs @ [s]\<rparr>
     = AList.update (scrape_InfoHash s) (scrape_entry s) (filesDict \<lparr>Files = fs\<rparr>)"
  by (simp add: filesDict_def)

lemma filesDict_Nil: "filesDict \<lparr>Files = []\<rparr> = []"
  by (simp add: filesDict_def)

lemma distinct_filesDict: "distinct (map fst (filesDict \<lparr>Files = fs\<rparr>))"
  by (induction fs rule: rev_induct) (simp_all add: filesDict_Nil filesDict_snoc distinct_update)

lemma keys_filesDict:
  "fst ` set (filesDict \<lparr>Files = fs\<rparr>) = scrape_InfoHash ` set fs"
  by (induction fs rule: rev_induct) (simp_all add: filesDict_Nil filesDict_snoc dom_update)

lemma map_of_filesDict:
  "map_of (filesDict \<lparr>Files = fs\<rparr>)
     = map_of (rev (map (\<lambda>s. (scrape_InfoHash s, scrape_entry s)) fs))"
  by (induction fs rule: rev_induct)
     (simp_all add: filesDict_Nil filesDict_snoc update_conv' fun_eq_iff)

lemma update_fresh: "k \<notin> fst ` set al \<Longrightarrow> AList.update k v al = al @ [(k, v)]"
  by (induction al) auto

lemma filesDict_distinct_keys:
  "distinct (map scrape_InfoHash fs) \<Longrightarrow>
   filesDict \<lparr>Files = fs\<rparr> = map (\<lambda>s. (scrape_InfoHash s, scrape_entry s)) fs"
proof (induction fs rule: rev_induct)
  case Nil
  show ?case by (simp add: filesDict_Nil)
next
  case (snoc s fs)
  from snoc.prems have "scrape_InfoHash s \<notin> fst ` set (filesDict \<lparr>Files = fs\<rparr>)"
    unfolding keys_filesDict by simp
  moreover from snoc have "filesDict \<lparr>Files = fs\<rparr>
      = map (\<lambda>s. (scrape_InfoHash s, scrape_entry s)) fs" by simp
  ultimately show ?case by (simp add: filesDict_snoc update_fresh)
qed

lemma keys_sort_key_fst:
  assumes "distinct (map fst al)"
  shows "map fst (sort_key fst al) = sort (remdups (map fst al))"
proof (rule sorted_distinct_set_unique)
  show "sorted (map fst (sort_key fst al))" by (rule sorted_sort_key)
  have "distinct (sort_key fst al)" using assms by (simp add: distinct_map)
  moreover have "inj_on fst (set (sort_key fst al))" using assms by (simp add: distinct_map)
  ultimately show "distinct (map fst (sort_key fst al))" by (simp add: distinct_map)
qed simp_all

lemma map_of_sort_key_fst:
  assumes "distinct (map fst al)"
  shows "map_of (sort_key fst al) = map_of al"
proof -
  have "distinct (map fst (sort_key fst al))"
    using assms keys_sort_key_fst[OF assms] by simp
  then show ?thesis using assms by (simp add: map_of_inject_set)
qed

lemma Itoa_5: "Itoa 5 = bytes_of ''5''"
  by (simp add: Itoa_def Itoa_nat.simps bytes_of_def)

lemma body_WriteScrapeResponse:
  "body (WriteScrapeResponse w resp)
     = body w @ bytes_of ''d5:filesd''
       @ concat (map (\<lambda>(k, v). bencode (BStr k) @ bencode v) (sort_key fst (filesDict resp)))
       @ bytes_of ''ee''"
  by (simp add: WriteScrapeResponse_def Encode_def body_Write length_bytes_of Itoa_5)
     (simp add: bytes_of_def)

lemma WriteScrapeResponse_sorted_keys:
  "body (WriteScrapeResponse w resp)
     = body w @ bytes_of ''d5:filesd''
       @ concat (map (\<lambda>(k, v). bencode (BStr k) @ bencode v) (sort_key fst (filesDict resp)))
       @ bytes_of ''ee''
   \<and> map fst (sort_key fst (filesDict resp))
       = sort (remdups (map scrape_InfoHash (Files resp)))
   \<and> map_of (sort_key fst (filesDict resp))
       = map_of (rev (map (\<lambda>s. (scrape_InfoHash s, scrape_entry s)) (Files resp)))
   \<and> (sorted_wrt (<) (map scrape_InfoHash (Files resp)) \<longrightarrow>
        body (WriteScrapeResponse w resp) = body w @ spec_scrape_body resp)"
proof -
  have r: "filesDict resp = filesDict \<lparr>Files = Files resp\<rparr>"
    by (simp add: filesDict_def)
  have d: "distinct (map fst (filesDict resp))"
    using distinct_filesDict[of "Files resp"] by (simp add: r)
  have k: "set (map fst (filesDict resp)) = set (map scrape_InfoHash (Files resp))"
    using keys_filesDict[of "Files resp"] by (simp add: r)
  have "sort (remdups (map fst (filesDict resp)))
          = sort (remdups (map scrape_InfoHash (Files resp)))"
    by (rule sorted_distinct_set_unique) (simp_all add: k del: set_map)
  then have 2: "map fst (sort_key fst (filesDict resp))
       = sort (remdups (map scrape_InfoHash (Files resp)))"
    by (simp add: keys_sort_key_fst[OF d])
  have 3: "map_of (sort_key fst (filesDict resp))
       = map_of (rev (map (\<lambda>s. (scrape_InfoHash s, scrape_entry s)) (Files resp)))"
  proof -
    have "map_of (sort_key fst (filesDict resp)) = map_of (filesDict resp)"
      by (rule map_of_sort_key_fst[OF d])
    also have "\<dots> = map_of (filesDict \<lparr>Files = Files resp\<rparr>)" by (simp only: r)
    also note map_of_filesDict
    finally show ?thesis .
  qed
  have 4: "body (WriteScrapeResponse w resp) = body w @ spec_scrape_body resp"
    if asc: "sorted_wrt (<) (map scrape_InfoHash (Files resp))"
  proof -
    from asc have s: "sorted (map scrape_InfoHash (Files resp))"
      and di: "distinct (map scrape_InfoHash (Files resp))"
      by (simp_all add: strict_sorted_iff)
    have f: "filesDict resp = map (\<lambda>s. (scrape_InfoHash s, scrape_entry s)) (Files resp)"
      using filesDict_distinct_keys[OF di] by (simp add: r)
    have "sort_key fst (filesDict resp) = filesDict resp"
      by (rule sort_key_id_if_sorted) (simp add: f s comp_def)
    then show ?thesis
      by (simp add: body_WriteScrapeResponse spec_scrape_body_def f comp_def)
  qed
  from 2 3 4 show ?thesis by (simp add: body_WriteScrapeResponse)
qed

lemma Files_foldl_scrape_of:
  "Files (foldl (\<lambda>resp infoHash. resp\<lparr>Files := Files resp @ [scrape_of f infoHash]\<rparr>) resp ihs)
     = Files resp @ map (scrape_of f) ihs"
  by (induction ihs arbitrary: resp) simp_all

lemma scrape_InfoHash_scrape_of: "scrape_InfoHash (scrape_of f ih) = ih"
  by (simp add: scrape_of_def Let_def split: prod.splits)

lemma Files_HandleScrape:
  "Files (fst (HandleScrape False f req resp)) = Files resp @ map (scrape_of f) (InfoHashes req)"
  by (simp add: HandleScrape_def Files_foldl_scrape_of)

lemma InfoHashes_HandleScrape:
  "map scrape_InfoHash (Files (fst (HandleScrape False f req resp)))
     = map scrape_InfoHash (Files resp) @ InfoHashes req"
  by (simp add: Files_HandleScrape comp_def scrape_InfoHash_scrape_of)

text \<open>
  Claim C5, as amended. For every scrape request, \<open>HandleScrape\<close> appends to the
  response's list one result for each infohash of the request, in the order of the
  request (and nothing when the context skips the hook): the scrape response presents
  the results in the order of the request's infohash list. The serialized HTTP body does not: it is the bencoded dictionary
  \<open>files\<close>, keyed by infohash, with one entry for each distinct infohash in ascending
  byte order, the last result of a repeated infohash winning. The body presents the
  results in the order of the request whenever that order is strictly ascending.
\<close>

theorem scrape_response_order:
  "map scrape_InfoHash (Files (fst (HandleScrape False f req resp)))
     = map scrape_InfoHash (Files resp) @ InfoHashes req
   \<and> HandleScrape True f req resp = (resp, None)
   \<and> Files (scrape_response f req) = map (scrape_of f) (InfoHashes req)
   \<and> map scrape_InfoHash (Files (scrape_response f req)) = InfoHashes req
   \<and> body (WriteScrapeResponse w (scrape_response f req))
       = body w @ bytes_of ''d5:filesd''
         @ concat (map (\<lambda>(k, v). bencode (BStr k) @ bencode v)
                     (sort_key fst (filesDict (scrape_response f req))))
         @ bytes_of ''ee''
   \<and> map fst (sort_key fst (filesDict (scrape_response f req)))
       = sort (remdups (InfoHashes req))
   \<and> map_of (sort_key fst (filesDict (scrape_response f req)))
       = map_of (rev (map (\<lambda>ih. (ih, scrape_entry (scrape_of f ih))) (InfoHashes req)))
   \<and> (sorted_wrt (<) (InfoHashes req) \<longrightarrow>
        body (WriteScrapeResponse w (scrape_response f req))
          = body w @ spec_scrape_body (scrape_response f req))"
proof -
  have F: "Files (scrape_response f req) = map (scrape_of f) (InfoHashes req)"
    by (simp add: scrape_response_def Files_HandleScrape)
  have I: "map scrape_InfoHash (Files (scrape_response f req)) = InfoHashes req"
    by (simp add: F comp_def scrape_InfoHash_scrape_of)
  have E: "map (\<lambda>s. (scrape_InfoHash s, scrape_entry s)) (Files (scrape_response f req))
             = map (\<lambda>ih. (ih, scrape_entry (scrape_of f ih))) (InfoHashes req)"
    by (simp add: F comp_def scrape_InfoHash_scrape_of)
  note S = WriteScrapeResponse_sorted_keys[of w "scrape_response f req", unfolded I E]
  have K: "HandleScrape True f req resp = (resp, None)"
    by (simp add: HandleScrape_def)
  show ?thesis
    using S F I K InfoHashes_HandleScrape[of f req resp] by blast
qed

theorem scrape_response_order_witness:
  "sorted_wrt (<) (InfoHashes request_ab)
   \<and> map scrape_InfoHash (Files (scrape_response demo_ScrapeSwarm request_ab))
       = InfoHashes request_ab
   \<and> Files (scrape_response demo_ScrapeSwarm request_ab) = [scrape_a, scrape_b]
   \<and> body (WriteScrapeResponse new_writer (scrape_response demo_ScrapeSwarm request_ab))
       = spec_scrape_body \<lparr>Files = [scrape_a, scrape_b]\<rparr>"
proof -
  have h: "sorted_wrt (<) (InfoHashes request_ab)"
    by (simp add: request_ab_def scrape_a_def scrape_b_def)
  have F: "scrape_response demo_ScrapeSwarm request_ab = \<lparr>Files = [scrape_a, scrape_b]\<rparr>"
    by (simp add: scrape_response_def HandleScrape_def request_ab_def scrape_of_def
        demo_ScrapeSwarm_def scrape_a_def scrape_b_def InfoHashV2Len_def)
  from h scrape_response_order[of demo_ScrapeSwarm request_ab "\<lparr>Files = []\<rparr>" new_writer]
  have "body (WriteScrapeResponse new_writer (scrape_response demo_ScrapeSwarm request_ab))
       = body new_writer @ spec_scrape_body (scrape_response demo_ScrapeSwarm request_ab)"
    and "map scrape_InfoHash (Files (scrape_response demo_ScrapeSwarm request_ab))
       = InfoHashes request_ab"
    by blast+
  with h show ?thesis by (simp add: new_writer_def F)
qed

text \<open>
  Claim C5 as stated fails in its second half: for the request of \<open>bbb...\<close> and
  \<open>aaa...\<close>, in this order, the response lists \<open>bbb...\<close> first and the body lists
  \<open>aaa...\<close> first, exactly as it does for the request in the opposite order.
\<close>

theorem scrape_body_reorders:
  "map scrape_InfoHash (Files (scrape_response demo_ScrapeSwarm request_ba))
     = InfoHashes request_ba
   \<and> Files (scrape_response demo_ScrapeSwarm request_ba) = [scrape_b, scrape_a]
   \<and> body (WriteScrapeResponse new_writer (scrape_response demo_ScrapeSwarm request_ba))
       = body (WriteScrapeResponse new_writer (scrape_response demo_ScrapeSwarm request_ab))
   \<and> body (WriteScrapeResponse new_writer (scrape_response demo_ScrapeSwarm request_ba))
       = spec_scrape_body \<lparr>Files = [scrape_a, scrape_b]\<rparr>
   \<and> body (WriteScrapeResponse new_writer (scrape_response demo_ScrapeSwarm request_ba))
       \<noteq> spec_scrape_body \<lparr>Files = [scrape_b, scrape_a]\<rparr>"
proof -
  have ab: "scrape_response demo_ScrapeSwarm request_ab = \<lparr>Files = [scrape_a, scrape_b]\<rparr>"
    by (simp add: scrape_response_def HandleScrape_def request_ab_def scrape_of_def
        demo_ScrapeSwarm_def scrape_a_def scrape_b_def InfoHashV2Len_def)
  have ba: "scrape_response demo_ScrapeSwarm request_ba = \<lparr>Files = [scrape_b, scrape_a]\<rparr>"
    by (simp add: scrape_response_def HandleScrape_def request_ba_def scrape_of_def
        demo_ScrapeSwarm_def scrape_a_def scrape_b_def InfoHashV2Len_def)
  show ?thesis
    unfolding ab ba
    by (simp add: body_WriteScrapeResponse filesDict_def spec_scrape_body_def scrape_a_def
        scrape_b_def new_writer_def scrape_entry_def request_ba_def)
qed
section \<open>The configuration of the PostgreSQL store\<close>

lemma agree_on_ascii_refl: "agree_on_ascii f f"
  by (simp add: agree_on_ascii_def)

lemma dropWhile_hd: "s \<noteq> [] \<Longrightarrow> \<not> P (hd s) \<Longrightarrow> dropWhile P s = s"
  by (cases s) simp_all

lemma ascii_TrimSpace_trimmed:
  assumes "s \<noteq> []" and "\<not> asciiSpace (hd s)" and "\<not> asciiSpace (last s)"
  shows "ascii_TrimSpace s = s"
proof -
  have "dropWhile asciiSpace (rev s) = rev s"
    using assms by (intro dropWhile_hd) (simp_all add: hd_rev)
  then show ?thesis using assms by (simp add: ascii_TrimSpace_def dropWhile_hd)
qed

lemma TrimSpace_trimmed:
  assumes "agree_on_ascii TrimSpace ascii_TrimSpace" and "ascii s"
    and "s \<noteq> []" and "\<not> asciiSpace (hd s)" and "\<not> asciiSpace (last s)"
  shows "TrimSpace s = s"
proof -
  from assms(1,2) have "TrimSpace s = ascii_TrimSpace s"
    by (simp add: agree_on_ascii_def)
  with assms(3-5) show ?thesis by (simp add: ascii_TrimSpace_trimmed)
qed

lemma fn_trimmed:
  assumes "agree_on_ascii TrimSpace ascii_TrimSpace" and "ascii s"
    and "s \<noteq> []" and "\<not> asciiSpace (hd s)" and "\<not> asciiSpace (last s)"
  shows "fn TrimSpace s name = (s, None)"
  using assms(3) by (simp add: fn_def TrimSpace_trimmed[OF assms])

lemma ToUpper_ascii:
  assumes "agree_on_ascii ToUpper ascii_ToUpper" and "ascii s"
  shows "ToUpper s = map ascii_upper s"
  using assms by (simp add: agree_on_ascii_def ascii_ToUpper_def)

lemma ToUpper_columns:
  assumes "agree_on_ascii ToUpper ascii_ToUpper"
  shows "ToUpper ''peer_id'' = ''PEER_ID''" and "ToUpper ''address'' = ''ADDRESS''"
    and "ToUpper ''port'' = ''PORT''" and "ToUpper ''seeders'' = ''SEEDERS''"
    and "ToUpper ''leechers'' = ''LEECHERS''"
  by (simp_all add: ToUpper_ascii[OF assms] ascii_def ascii_upper_def)

lemma Validate_demo_Config:
  assumes tr: "agree_on_ascii TrimSpace ascii_TrimSpace"
    and up: "agree_on_ascii ToUpper ascii_ToUpper"
  shows "Validate TrimSpace ToUpper demo_Config =
     (demo_Config\<lparr>PingQuery := defaultPingQuery,
        AnnounceCfg := (AnnounceCfg demo_Config)\<lparr>PeerIDColumn := ''PORT''\<rparr>,
        PeerCfg := (PeerCfg demo_Config)\<lparr>CountSeedersColumn := ''SEEDERS'',
                                         CountLeechersColumn := ''LEECHERS''\<rparr>\<rparr>, None)"
proof -
  have c: "TrimSpace (ConnectionString demo_Config) = ConnectionString demo_Config"
    by (rule TrimSpace_trimmed[OF tr]) (simp_all add: demo_Config_def asciiSpace_def ascii_def)
  have t: "trim_required TrimSpace required_parameters
             (demo_Config\<lparr>PingQuery := defaultPingQuery\<rparr>)
           = (demo_Config\<lparr>PingQuery := defaultPingQuery\<rparr>, None)"
    by (simp add: required_parameters_def demo_Config_def fn_trimmed[OF tr] asciiSpace_def
        ascii_def)
  show ?thesis
    unfolding Validate_def Let_def c
    by (simp add: t) (simp add: demo_Config_def ToUpper_columns[OF up])
qed

lemma demo_store_builder:
  assumes "agree_on_ascii TrimSpace ascii_TrimSpace"
    and "agree_on_ascii ToUpper ascii_ToUpper"
  shows "builder TrimSpace ToUpper demo_Config (Inr demo_Pool)
           = Inr (demo_store TrimSpace ToUpper)"
  by (simp add: builder_def demo_store_def Validate_demo_Config[OF assms])

lemma demo_store_fields:
  assumes "agree_on_ascii TrimSpace ascii_TrimSpace"
    and "agree_on_ascii ToUpper ascii_ToUpper"
  shows "Pool (demo_store TrimSpace ToUpper) = demo_Pool"
    and "CountQuery (PeerCfg (Config (demo_store TrimSpace ToUpper))) = ''SELECT * FROM counts''"
    and "ByInfoHashClause (PeerCfg (Config (demo_store TrimSpace ToUpper))) = ''WHERE ih = $1''"
    and "CountSeedersColumn (PeerCfg (Config (demo_store TrimSpace ToUpper))) = ''SEEDERS''"
    and "CountLeechersColumn (PeerCfg (Config (demo_store TrimSpace ToUpper))) = ''LEECHERS''"
    and "AnnounceCfg (Config (demo_store TrimSpace ToUpper))
           = \<lparr>Query = ''SELECT * FROM announce($1,$2,$3,$4)'', PeerIDColumn = ''PORT'',
              AddressColumn = ''address'', PortColumn = ''port''\<rparr>"
  unfolding demo_store_def Validate_demo_Config[OF assms]
  by (simp_all add: demo_Config_def)

lemma Validate_PeerIDColumn:
  assumes "Validate TrimSpace ToUpper config = (v, None)"
  shows "PeerIDColumn (AnnounceCfg v) = ToUpper (PortColumn (AnnounceCfg v))"
  using assms
  by (auto simp: Validate_def Let_def split: if_splits prod.splits option.splits)

text \<open>
  Claim C10 breaks on the code. The three lines that upper-case the announce columns
  all assign \<open>Announce.PeerIDColumn\<close>: for a complete configuration with the columns
  \<open>peer_id\<close>, \<open>address\<close> and \<open>port\<close>, \<open>Validate\<close> succeeds and returns \<open>PORT\<close> as the
  peer ID column, and the address and port columns as they were, in lower case. With
  that configuration \<open>getPeers\<close> takes the result's \<open>port\<close> column for the peer ID and
  finds neither an address nor a port column. This holds with whatever \<open>TrimSpace\<close> and
  \<open>ToUpper\<close> do outside ASCII text.
\<close>

theorem Validate_overwrites_PeerIDColumn:
  assumes "agree_on_ascii TrimSpace ascii_TrimSpace"
    and "agree_on_ascii ToUpper ascii_ToUpper"
  shows "snd (Validate TrimSpace ToUpper demo_Config) = None
   \<and> AnnounceCfg (fst (Validate TrimSpace ToUpper demo_Config))
       = (AnnounceCfg demo_Config)\<lparr>PeerIDColumn := ''PORT''\<rparr>
   \<and> PeerIDColumn (AnnounceCfg (fst (Validate TrimSpace ToUpper demo_Config)))
       \<noteq> ToUpper ''peer_id''
   \<and> AddressColumn (AnnounceCfg (fst (Validate TrimSpace ToUpper demo_Config)))
       \<noteq> ToUpper ''address''
   \<and> PortColumn (AnnounceCfg (fst (Validate TrimSpace ToUpper demo_Config)))
       \<noteq> ToUpper ''port''
   \<and> getPeers ToUpper \<lparr>Config = fst (Validate TrimSpace ToUpper demo_Config), Pool = demo_Pool\<rparr>
         demo_ih True 2 False
       = ([], Some (errRequiredColumnsNotFound [''PORT'', ''address'', ''port'']))"
proof -
  note v = Validate_demo_Config[OF assms]
  note u = ToUpper_columns[OF assms(2)]
  have a: "AnnounceCfg (fst (Validate TrimSpace ToUpper demo_Config))
       = \<lparr>Query = ''SELECT * FROM announce($1,$2,$3,$4)'', PeerIDColumn = ''PORT'',
          AddressColumn = ''address'', PortColumn = ''port''\<rparr>"
    unfolding v by (simp add: demo_Config_def)
  have p: "peer_columns ToUpper ''PORT'' ''address'' ''port'' [''peer_id'', ''address'', ''port'']
             0 (- 1, - 1, - 1) = (2, - 1, - 1)"
    by (simp add: u)
  have g: "getPeers ToUpper \<lparr>Config = fst (Validate TrimSpace ToUpper demo_Config), Pool = demo_Pool\<rparr>
         demo_ih True 2 False
       = ([], Some (errRequiredColumnsNotFound [''PORT'', ''address'', ''port'']))"
    unfolding getPeers_def
    by (simp add: a demo_Pool_def p del: peer_columns.simps)
  have e: "snd (Validate TrimSpace ToUpper demo_Config) = None" unfolding v by simp
  have a': "AnnounceCfg (fst (Validate TrimSpace ToUpper demo_Config))
       = (AnnounceCfg demo_Config)\<lparr>PeerIDColumn := ''PORT''\<rparr>"
    unfolding a by (simp add: demo_Config_def)
  have n: "PeerIDColumn (AnnounceCfg (fst (Validate TrimSpace ToUpper demo_Config)))
             \<noteq> ToUpper ''peer_id''"
    "AddressColumn (AnnounceCfg (fst (Validate TrimSpace ToUpper demo_Config)))
       \<noteq> ToUpper ''address''"
    "PortColumn (AnnounceCfg (fst (Validate TrimSpace ToUpper demo_Config))) \<noteq> ToUpper ''port''"
    unfolding a u by simp_all
  from e a' n g show ?thesis by (intro conjI)
qed

theorem Validate_overwrites_PeerIDColumn_witness:
  "agree_on_ascii ascii_TrimSpace ascii_TrimSpace
   \<and> agree_on_ascii ascii_ToUpper ascii_ToUpper
   \<and> snd (Validate ascii_TrimSpace ascii_ToUpper demo_Config) = None
   \<and> AnnounceCfg (fst (Validate ascii_TrimSpace ascii_ToUpper demo_Config))
       = \<lparr>Query = ''SELECT * FROM announce($1,$2,$3,$4)'', PeerIDColumn = ''PORT'',
          AddressColumn = ''address'', PortColumn = ''port''\<rparr>
   \<and> ascii_ToUpper ''peer_id'' = ''PEER_ID''
   \<and> ascii_ToUpper ''address'' = ''ADDRESS''
   \<and> ascii_ToUpper ''port'' = ''PORT''"
  using Validate_overwrites_PeerIDColumn[of ascii_TrimSpace ascii_ToUpper]
  by (simp add: agree_on_ascii_refl demo_Config_def ascii_ToUpper_def ascii_upper_def)

section \<open>Scraping the PostgreSQL store\<close>

lemma scan_cell_GotInt: "scan_cell d c = Some (GotInt n) \<Longrightarrow> c = CellInt n"
  by (cases d; cases c) simp_all

lemma nth_shift:
  assumes "Suc i \<le> j \<and> j - Suc i < length cs \<and> cs ! (j - Suc i) = x"
  shows "i \<le> j \<and> j - i < length (c # cs) \<and> (c # cs) ! (j - i) = x"
proof -
  from assms have "j - i = Suc (j - Suc i)" by arith
  with assms show ?thesis by simp
qed

lemma scan_from_GotInt:
  "scan_from i into cs = (m, err) \<Longrightarrow> m j = Some (GotInt n)
     \<Longrightarrow> i \<le> j \<and> j - i < length cs \<and> cs ! (j - i) = CellInt n"
proof (induction i into cs arbitrary: m err rule: scan_from.induct)
  case (1 i cs)
  then show ?case by auto
next
  case (2 i d ds)
  then show ?case by auto
next
  case (3 i ds c cs)
  from 3 have "Suc i \<le> j \<and> j - Suc i < length cs \<and> cs ! (j - Suc i) = CellInt n" by simp
  then show ?case by (rule nth_shift)
next
  case (4 i d ds c cs)
  show ?case
  proof (cases "scan_cell d c")
    case None
    with "4.prems" show ?thesis by auto
  next
    case (Some v)
    obtain m' err' where r: "scan_from (Suc i) ds cs = (m', err')"
      by (cases "scan_from (Suc i) ds cs")
    with 4 Some have m: "m = m'(i \<mapsto> v)" by simp
    show ?thesis
    proof (cases "j = i")
      case True
      with m "4.prems" have "v = GotInt n" by simp
      with Some True show ?thesis by (simp add: scan_cell_GotInt)
    next
      case False
      with m "4.prems" have "m' j = Some (GotInt n)" by simp
      from "4.IH"[OF Some r this]
      have "Suc i \<le> j \<and> j - Suc i < length cs \<and> cs ! (j - Suc i) = CellInt n" .
      then show ?thesis by (rule nth_shift)
    qed
  qed
qed

lemma Scan_GotInt:
  assumes "Scan names row into = (m, err)" and "m j = Some (GotInt n)"
  shows "j < length row \<and> length names = length row \<and> row ! j = CellInt n"
proof -
  from assms have l: "length names = length row" and s: "scan_from 0 into row = (m, err)"
    by (auto simp: Scan_def split: if_splits)
  from scan_from_GotInt[OF s assms(2)] l show ?thesis by simp
qed

lemma count_columns_found:
  "count_columns ToUpper sc lc fs i (si0, li0) = (si, li) \<Longrightarrow> 0 \<le> i \<Longrightarrow>
     (si = si0 \<or> (i \<le> si \<and> nat (si - i) < length fs \<and> ToUpper (fs ! nat (si - i)) = sc))
   \<and> (li = li0 \<or> (i \<le> li \<and> nat (li - i) < length fs \<and> ToUpper (fs ! nat (li - i)) = lc))"
proof (induction fs arbitrary: i si0 li0)
  case Nil
  then show ?case by simp
next
  case (Cons f fs)
  let ?p = "if ToUpper f = sc then (i, li0) else if ToUpper f = lc then (si0, i) else (si0, li0)"
  from Cons.prems have r: "count_columns ToUpper sc lc fs (i + 1) (fst ?p, snd ?p) = (si, li)"
    by (simp add: Let_def split: if_splits)
  from Cons.IH[OF r] Cons.prems(2)
  have h: "(si = fst ?p \<or> (i + 1 \<le> si \<and> nat (si - (i + 1)) < length fs
                \<and> ToUpper (fs ! nat (si - (i + 1))) = sc))
         \<and> (li = snd ?p \<or> (i + 1 \<le> li \<and> nat (li - (i + 1)) < length fs
                \<and> ToUpper (fs ! nat (li - (i + 1))) = lc))" by simp
  have shift: "i + 1 \<le> k \<Longrightarrow> nat (k - (i + 1)) < length fs \<Longrightarrow>
      nat (k - i) < length (f # fs) \<and> (f # fs) ! nat (k - i) = fs ! nat (k - (i + 1))" for k
  proof -
    assume a: "i + 1 \<le> k" "nat (k - (i + 1)) < length fs"
    then have "nat (k - i) = Suc (nat (k - (i + 1)))" by linarith
    with a show ?thesis by simp
  qed
  show ?case
  proof (intro conjI)
    show "si = si0 \<or> (i \<le> si \<and> nat (si - i) < length (f # fs)
            \<and> ToUpper ((f # fs) ! nat (si - i)) = sc)"
      using h shift[of si] by (auto split: if_splits)
    show "li = li0 \<or> (i \<le> li \<and> nat (li - i) < length (f # fs)
            \<and> ToUpper ((f # fs) ! nat (li - i)) = lc)"
      using h shift[of li] by (auto split: if_splits)
  qed
qed

lemma absent_got_int:
  assumes z: "list_all (\<lambda>(field, c). if ToUpper field = sc \<or> ToUpper field = lc
                                     then zero_cell c else True) (zip names row)"
    and s: "Scan names row into = (m, err)"
    and k: "0 \<le> k" "nat k < length names" "ToUpper (names ! nat k) = sc \<or> ToUpper (names ! nat k) = lc"
  shows "got_int m k = 0"
proof (cases "m (nat k)")
  case None
  then show ?thesis by (simp add: got_int_def)
next
  case (Some v)
  show ?thesis
  proof (cases v)
    case (GotBytes b)
    with Some show ?thesis by (simp add: got_int_def)
  next
    case (GotInt n)
    with Some Scan_GotInt[OF s, of "nat k" n]
    have r: "nat k < length row" "length names = length row" "row ! nat k = CellInt n" by simp_all
    then have "(names ! nat k, row ! nat k) \<in> set (zip names row)"
      by (auto simp: set_zip)
    with z k(3) have "zero_cell (row ! nat k)"
      by (auto simp: list_all_iff)
    with r Some GotInt show ?thesis by (simp add: zero_cell_def got_int_def)
  qed
qed

lemma countPeers_absent:
  assumes "absent ToUpper s ih"
  shows "countPeers ToUpper s ih = (0, 0)"
proof (cases "count_result s ih")
  case (Inl e)
  with assms show ?thesis by (simp add: absent_def)
next
  case (Inr rs)
  show ?thesis
  proof (cases "rows rs")
    case Nil
    with Inr show ?thesis by (simp add: countPeers_def)
  next
    case (Cons row rest)
    let ?sc = "CountSeedersColumn (PeerCfg (Config s))"
    let ?lc = "CountLeechersColumn (PeerCfg (Config s))"
    obtain si li where c: "count_columns ToUpper ?sc ?lc (FieldDescriptions rs) 0 (- 1, - 1) = (si, li)"
      by (cases "count_columns ToUpper ?sc ?lc (FieldDescriptions rs) 0 (- 1, - 1)")
    from assms Inr Cons
    have z: "list_all (\<lambda>(field, c). if ToUpper field = ?sc \<or> ToUpper field = ?lc
                                     then zero_cell c else True) (zip (FieldDescriptions rs) row)"
      by (simp add: absent_def)
    show ?thesis
    proof (cases "si < 0 \<or> li < 0")
      case True
      with Inr Cons c show ?thesis by (simp add: countPeers_def)
    next
      case False
      let ?into = "(replicate (nat ((if si > li then si else li) + 1)) None)
                     [nat si := Some DestInt, nat li := Some DestInt]"
      obtain m err where sc: "Scan (FieldDescriptions rs) row ?into = (m, err)"
        by (cases "Scan (FieldDescriptions rs) row ?into")
      from count_columns_found[OF c] False
      have f: "nat si < length (FieldDescriptions rs)" "ToUpper (FieldDescriptions rs ! nat si) = ?sc"
        "nat li < length (FieldDescriptions rs)" "ToUpper (FieldDescriptions rs ! nat li) = ?lc"
        by auto
      from False have "got_int m si = 0" "got_int m li = 0"
        using absent_got_int[OF z sc] f by auto
      with Inr Cons c False sc show ?thesis by (simp add: countPeers_def Let_def)
    qed
  qed
qed

lemma countPeers_unavailable: "unavailable s ih \<Longrightarrow> countPeers ToUpper s ih = (0, 0)"
  by (cases "count_result s ih") (simp_all add: unavailable_def countPeers_def)

text \<open>
  Claim C2. \<open>ScrapeSwarm\<close> has no error result and is defined for every store and
  infohash. For an infohash that is absent from the store (the count statement gives
  no row for it, or zero counts) it returns \<open>(0, 0, 0)\<close>; it returns the same when the
  statement fails, so a failure of the database is not signalled either.
\<close>

theorem ScrapeSwarm_absent:
  assumes "absent ToUpper s ih \<or> unavailable s ih"
  shows "ScrapeSwarm ToUpper s ih = (0, 0, 0)"
  using assms countPeers_absent[of ToUpper s ih] countPeers_unavailable[of s ih]
  by (auto simp: ScrapeSwarm_def)

theorem ScrapeSwarm_absent_witness:
  "builder ascii_TrimSpace ascii_ToUpper demo_Config (Inr demo_Pool)
     = Inr (demo_store ascii_TrimSpace ascii_ToUpper)
   \<and> absent ascii_ToUpper (demo_store ascii_TrimSpace ascii_ToUpper) other_ih
   \<and> ScrapeSwarm ascii_ToUpper (demo_store ascii_TrimSpace ascii_ToUpper) other_ih = (0, 0, 0)
   \<and> unavailable (demo_store ascii_TrimSpace ascii_ToUpper) NoneInfoHash
   \<and> ScrapeSwarm ascii_ToUpper (demo_store ascii_TrimSpace ascii_ToUpper) NoneInfoHash
       = (0, 0, 0)"
proof -
  let ?s = "demo_store ascii_TrimSpace ascii_ToUpper"
  note f = demo_store_fields[OF agree_on_ascii_refl agree_on_ascii_refl]
  note b = demo_store_builder[OF agree_on_ascii_refl agree_on_ascii_refl]
  have c: "count_result ?s other_ih
             = Inr \<lparr>FieldDescriptions = [''seeders'', ''leechers''], rows = [[CellInt 0, CellInt 0]]\<rparr>"
    unfolding count_result_def f
    by (simp add: demo_Pool_def other_ih_def demo_ih_def lone_ih_def NoneInfoHash_def)
  note u = ToUpper_columns[OF agree_on_ascii_refl]
  have a: "absent ascii_ToUpper ?s other_ih"
    unfolding absent_def c f by (simp add: u zero_cell_def)
  have n: "unavailable ?s NoneInfoHash"
    unfolding unavailable_def count_result_def f by (simp add: demo_Pool_def)
  from a n b ScrapeSwarm_absent[of ascii_ToUpper ?s other_ih]
    ScrapeSwarm_absent[of ascii_ToUpper ?s NoneInfoHash]
  show ?thesis by simp
qed
section \<open>Announcing peers from the PostgreSQL store\<close>

lemma length_scan_peers:
  "length (fst (scan_peers names into ix maxCount rs peers err))
     \<le> max (length peers) (nat maxCount)"
proof (induction names into ix maxCount rs peers err rule: scan_peers.induct)
  case (1 names into ix maxCount peers err)
  show ?case by simp
next
  case (2 names into idIndex ipIndex portIndex maxCount row rest peers err)
  show ?case
  proof (cases "int (length peers) < maxCount")
    case False
    then show ?thesis by simp
  next
    case True
    then have l: "max (Suc (length peers)) (nat maxCount) = max (length peers) (nat maxCount)"
      by linarith
    from True "2.IH" show ?thesis
      by (auto simp: Let_def l split: prod.splits option.splits bool.splits)
  qed
qed

lemma length_scan_peers_Nil:
  "int (length (fst (scan_peers names into ix maxCount rs [] None))) \<le> max 0 maxCount"
proof -
  have "length (fst (scan_peers names into ix maxCount rs [] None)) \<le> nat maxCount"
    using length_scan_peers[of names into ix maxCount rs "[]" None] by simp
  then show ?thesis by linarith
qed

lemma length_getPeers:
  "int (length (fst (getPeers ToUpper s ih seeders maxCount isV6))) \<le> max 0 maxCount"
proof (cases "Pool s (Query (AnnounceCfg (Config s)))
             [ArgBytes ih, ArgBool isV6, ArgBool seeders, ArgInt maxCount]")
  case (Inl e)
  then show ?thesis by (simp add: getPeers_def)
next
  case (Inr rs)
  obtain idIndex ipIndex portIndex where
    c: "peer_columns ToUpper (PeerIDColumn (AnnounceCfg (Config s)))
                  (AddressColumn (AnnounceCfg (Config s)))
                  (PortColumn (AnnounceCfg (Config s)))
                  (FieldDescriptions rs) 0 (- 1, - 1, - 1) = (idIndex, ipIndex, portIndex)"
    using prod_cases3 by blast
  show ?thesis
  proof (cases "idIndex < 0 \<or> ipIndex < 0 \<or> portIndex < 0")
    case True
    with Inr c show ?thesis by (simp add: getPeers_def)
  next
    case False
    with Inr c show ?thesis
      by (simp add: getPeers_def Let_def length_scan_peers_Nil del: max.absorb1 max.absorb2 max.absorb3 max.absorb4)
  qed
qed

lemma AnnouncePeers_for_seeder:
  "fst (AnnouncePeers ToUpper s ih True numWant v6) = fst (getPeers ToUpper s ih False numWant v6)"
  by (cases "getPeers ToUpper s ih False numWant v6") (simp add: AnnouncePeers_def Let_def)

lemma AnnouncePeers_for_leecher:
  "fst (AnnouncePeers ToUpper s ih False numWant v6)
     = fst (getPeers ToUpper s ih True numWant v6)
       @ (if snd (getPeers ToUpper s ih True numWant v6) = None
          then fst (getPeers ToUpper s ih False
                      (numWant - int (length (fst (getPeers ToUpper s ih True numWant v6)))) v6)
          else [])"
proof -
  obtain peers err where 1: "getPeers ToUpper s ih True numWant v6 = (peers, err)"
    by (cases "getPeers ToUpper s ih True numWant v6")
  obtain addPeers err' where
    2: "getPeers ToUpper s ih False (numWant - int (length peers)) v6 = (addPeers, err')"
    by (cases "getPeers ToUpper s ih False (numWant - int (length peers)) v6")
  show ?thesis
  proof (cases err)
    case None
    with 1 2 show ?thesis by (simp add: AnnouncePeers_def Let_def)
  next
    case (Some e)
    with 1 show ?thesis by (simp add: AnnouncePeers_def Let_def)
  qed
qed

lemma peer_columns_portIndex:
  assumes "\<forall>x. ToUpper (ToUpper x) = ToUpper x" and "idc = ToUpper pc"
  shows "snd (snd (peer_columns ToUpper idc ipc pc fs i (idIndex, ipIndex, portIndex)))
           = portIndex"
proof (induction fs arbitrary: i idIndex ipIndex portIndex)
  case Nil
  show ?case by simp
next
  case (Cons f fs)
  have "ToUpper f = pc \<Longrightarrow> ToUpper f = idc"
    using assms by metis
  with Cons show ?case by (simp add: Let_def)
qed

text \<open>
  No store that \<open>builder\<close> makes returns a peer, whatever the database holds, when
  \<open>ToUpper\<close> leaves an upper-cased string as it is: the validated configuration has
  the upper-cased port column as its peer ID column, so that no column of a result is
  taken for the port.
\<close>

lemma getPeers_of_builder:
  assumes "builder TrimSpace ToUpper config con = Inr s"
    and "\<forall>x. ToUpper (ToUpper x) = ToUpper x"
  shows "fst (getPeers ToUpper s ih seeders maxCount isV6) = []
       \<and> snd (getPeers ToUpper s ih seeders maxCount isV6) \<noteq> None"
proof -
  from assms(1) have v: "Validate TrimSpace ToUpper config = (Config s, None)"
    by (auto simp: builder_def split: prod.splits option.splits sum.splits)
  note k = Validate_PeerIDColumn[OF v]
  show ?thesis
  proof (cases "Pool s (Query (AnnounceCfg (Config s)))
             [ArgBytes ih, ArgBool isV6, ArgBool seeders, ArgInt maxCount]")
    case (Inl e)
    then show ?thesis by (simp add: getPeers_def)
  next
    case (Inr rs)
    obtain idIndex ipIndex portIndex where
      c: "peer_columns ToUpper (PeerIDColumn (AnnounceCfg (Config s)))
                  (AddressColumn (AnnounceCfg (Config s)))
                  (PortColumn (AnnounceCfg (Config s)))
                  (FieldDescriptions rs) 0 (- 1, - 1, - 1) = (idIndex, ipIndex, portIndex)"
      using prod_cases3 by blast
    from peer_columns_portIndex[OF assms(2) k, of "AddressColumn (AnnounceCfg (Config s))"
        "FieldDescriptions rs" 0 "- 1" "- 1" "- 1"] c
    have "portIndex = - 1" by simp
    with Inr c show ?thesis by (simp add: getPeers_def)
  qed
qed

lemma AnnouncePeers_of_builder:
  assumes "builder TrimSpace ToUpper config con = Inr s"
    and "\<forall>x. ToUpper (ToUpper x) = ToUpper x"
  shows "fst (AnnouncePeers ToUpper s ih forSeeder numWant v6) = []
       \<and> snd (AnnouncePeers ToUpper s ih forSeeder numWant v6) \<noteq> None"
proof -
  note g = getPeers_of_builder[OF assms]
  obtain e where 1: "getPeers ToUpper s ih False numWant v6 = ([], Some e)"
    using g[of ih False numWant v6] by (cases "getPeers ToUpper s ih False numWant v6") auto
  obtain e' where 2: "getPeers ToUpper s ih True numWant v6 = ([], Some e')"
    using g[of ih True numWant v6] by (cases "getPeers ToUpper s ih True numWant v6") auto
  show ?thesis by (cases forSeeder) (simp_all add: AnnouncePeers_def 1 2)
qed

text \<open>
  The same database read with each announce column upper-cased into itself, as
  \<open>Validate\<close> does for the count columns: the statement's row is scanned into the peer.
\<close>

lemma demo_into:
  "(replicate (nat (2 + 1)) None)
     [nat 0 := Some DestBytes, nat 1 := Some DestIP, nat 2 := Some DestInt]
   = [Some DestBytes, Some DestIP, Some DestInt]"
  by (simp add: numeral_3_eq_3 numeral_2_eq_2)

lemma scan_one_peer:
  assumes "length (ID p) = 20" and "AddrPort p = (Addr4 a, port)" and "0 < n"
  shows "scan_peers [''peer_id'', ''address'', ''port'']
           [Some DestBytes, Some DestIP, Some DestInt] (0, 1, 2) n [peer_row p] [] None
         = ([p], None)"
proof -
  define m :: "nat \<rightharpoonup> scanned" where
    "m = [Suc (Suc 0) \<mapsto> GotInt (uint port), Suc 0 \<mapsto> GotBytes (be_bytes 4 a),
          0 \<mapsto> GotBytes (ID p)]"
  have sc: "Scan [''peer_id'', ''address'', ''port''] (peer_row p)
              [Some DestBytes, Some DestIP, Some DestInt] = (m, None)"
    using assms(2) by (simp add: Scan_def peer_row_def Addr_def Port_def m_def)
  have g: "got_bytes m 0 = ID p" "got_bytes m 1 = be_bytes 4 a" "got_int m 2 = uint port"
    by (simp_all add: got_bytes_def got_int_def m_def numeral_2_eq_2)
  have af: "AddrFromSlice (be_bytes 4 a) = (Addr4 a, True)"
    by (simp add: AddrFromSlice_def length_be_bytes be_word_be_bytes)
  have p: "\<lparr>ID = ID p, AddrPort = (Addr4 a, port)\<rparr> = p" using assms(2) by simp
  show ?thesis
    using assms(1,3)
    by (simp add: sc g NewPeerID_def PeerIDLen_def af AddrPortFrom_def p)
qed

lemma getPeers_each_column_upper_cased:
  assumes "agree_on_ascii ToUpper ascii_ToUpper"
    and "AnnounceCfg (Config s)
           = \<lparr>Query = ''SELECT * FROM announce($1,$2,$3,$4)'', PeerIDColumn = ''PEER_ID'',
              AddressColumn = ''ADDRESS'', PortColumn = ''PORT''\<rparr>"
    and "Pool s = demo_Pool"
  shows "getPeers ToUpper s lone_ih False 50 False = ([leecher_peer], None)"
proof -
  have q: "Pool s (Query (AnnounceCfg (Config s)))
             [ArgBytes lone_ih, ArgBool False, ArgBool False, ArgInt 50]
           = Inr \<lparr>FieldDescriptions = [''peer_id'', ''address'', ''port''],
                  rows = [peer_row leecher_peer]\<rparr>"
    unfolding assms by (simp add: demo_Pool_def lone_ih_def demo_ih_def)
  have c: "peer_columns ToUpper ''PEER_ID'' ''ADDRESS'' ''PORT'' [''peer_id'', ''address'', ''port'']
     0 (- 1, - 1, - 1) = (0, 1, 2)"
    by (simp add: ToUpper_columns[OF assms(1)])
  have l: "scan_peers [''peer_id'', ''address'', ''port'']
           [Some DestBytes, Some DestIP, Some DestInt] (0, 1, 2) 50 [peer_row leecher_peer] [] None
         = ([leecher_peer], None)"
    by (rule scan_one_peer) (simp_all add: leecher_peer_def)
  show ?thesis
    unfolding getPeers_def q
    by (simp add: assms(2) c demo_into[simplified] l del: peer_columns.simps scan_peers.simps)
qed

text \<open>
  Claim C1 breaks on the code, by the defect of claim C10. The store that \<open>builder\<close>
  makes of the complete configuration has \<open>PORT\<close>, \<open>address\<close> and \<open>port\<close> as its announce
  columns. The database holds a swarm with one leecher and no seeder: the announce
  statement gives the leecher's row for it. \<open>AnnouncePeers\<close> returns no peer and the
  error \<open>required columns not found\<close>, for a seeder and for a leecher, where the claim
  has the leecher returned; it returns no peer for the swarm of one seeder and one
  leecher either.
\<close>

theorem AnnouncePeers_returns_no_peer:
  assumes "agree_on_ascii TrimSpace ascii_TrimSpace"
    and "agree_on_ascii ToUpper ascii_ToUpper"
  shows "builder TrimSpace ToUpper demo_Config (Inr demo_Pool)
           = Inr (demo_store TrimSpace ToUpper)
   \<and> Pool (demo_store TrimSpace ToUpper)
         (Query (AnnounceCfg (Config (demo_store TrimSpace ToUpper))))
         [ArgBytes lone_ih, ArgBool False, ArgBool False, ArgInt 50]
       = Inr \<lparr>FieldDescriptions = [''peer_id'', ''address'', ''port''],
              rows = [peer_row leecher_peer]\<rparr>
   \<and> AnnouncePeers ToUpper (demo_store TrimSpace ToUpper) lone_ih False 50 False
       = ([], Some (errRequiredColumnsNotFound [''PORT'', ''address'', ''port'']))
   \<and> AnnouncePeers ToUpper (demo_store TrimSpace ToUpper) lone_ih True 50 False
       = ([], Some (errRequiredColumnsNotFound [''PORT'', ''address'', ''port'']))
   \<and> AnnouncePeers ToUpper (demo_store TrimSpace ToUpper) demo_ih False 50 False
       = ([], Some (errRequiredColumnsNotFound [''PORT'', ''address'', ''port'']))"
proof -
  let ?s = "demo_store TrimSpace ToUpper"
  note f = demo_store_fields[OF assms]
  note u = ToUpper_columns[OF assms(2)]
  have q: "Pool ?s (Query (AnnounceCfg (Config ?s)))
         [ArgBytes lone_ih, ArgBool False, ArgBool False, ArgInt 50]
       = Inr \<lparr>FieldDescriptions = [''peer_id'', ''address'', ''port''],
              rows = [peer_row leecher_peer]\<rparr>"
    unfolding f by (simp add: demo_Pool_def lone_ih_def demo_ih_def)
  have p: "peer_columns ToUpper ''PORT'' ''address'' ''port'' [''peer_id'', ''address'', ''port'']
             0 (- 1, - 1, - 1) = (2, - 1, - 1)"
    by (simp add: u)
  have g: "getPeers ToUpper ?s ih seeders 50 False
       = ([], Some (errRequiredColumnsNotFound [''PORT'', ''address'', ''port'']))"
    for ih seeders
    unfolding getPeers_def f
    by (simp add: demo_Pool_def p del: peer_columns.simps)
  have a: "AnnouncePeers ToUpper ?s ih forSeeder 50 False
       = ([], Some (errRequiredColumnsNotFound [''PORT'', ''address'', ''port'']))"
    for ih forSeeder
    by (simp add: AnnouncePeers_def g)
  from demo_store_builder[OF assms] q a show ?thesis by simp
qed

theorem AnnouncePeers_returns_no_peer_witness:
  "agree_on_ascii ascii_TrimSpace ascii_TrimSpace
   \<and> agree_on_ascii ascii_ToUpper ascii_ToUpper
   \<and> builder ascii_TrimSpace ascii_ToUpper demo_Config (Inr demo_Pool)
       = Inr (demo_store ascii_TrimSpace ascii_ToUpper)
   \<and> fst (AnnouncePeers ascii_ToUpper (demo_store ascii_TrimSpace ascii_ToUpper)
            lone_ih False 50 False) = []
   \<and> fst (AnnouncePeers ascii_ToUpper (demo_store ascii_TrimSpace ascii_ToUpper)
            lone_ih True 50 False) = []"
  using AnnouncePeers_returns_no_peer[of ascii_TrimSpace ascii_ToUpper]
  by (simp add: agree_on_ascii_refl)

end
